theory Spec2Isabelle
  imports Main "HOL-Library.Word"
begin

section \<open>The delegate USDT precompile: data model\<close>

text \<open>
  The development embeds \<^verbatim>\<open>xtop_delegate_usdt_contract::execute\<close>
  (xdelegate_usdt_contract.cpp). The function reads its input bytes, a gas budget, the call
  context and the static flag, works on the staged account state behind \<^verbatim>\<open>state_ctx\<close>,
  and reports through two structures passed by reference (\<^verbatim>\<open>output\<close> and \<^verbatim>\<open>err\<close>)
  and a boolean return value. The model passes the staged state and both structures in and
  returns them, updated, together with the boolean.
\<close>

type_synonym byte = "8 word"
type_synonym xbytes_t = "byte list"
type_synonym u64 = "64 word"
type_synonym u256 = "256 word"
type_synonym xh256_t = "256 word"
type_synonym xeth_address_t = "160 word"
type_synonym xchain_uuid_t = byte

text \<open>
  Modelled from the spec: \<^verbatim>\<open>common::xaccount_address_t\<close> is declared in a header that is
  not part of the sources. The spec (design notes) asks for the derivation of the native
  address from the 20-byte EVM address to be a pure function; \<open>account_build_from\<close> is
  \<^verbatim>\<open>xaccount_address_t::build_from(eth_address, enum_vaccount_addr_type_secp256k1_evm_user_account)\<close>
  and \<open>eth_build_from\<close> is \<^verbatim>\<open>xeth_address_t::build_from(account_address)\<close>.
\<close>

datatype xaccount_address_t = account_build_from xeth_address_t

fun eth_build_from :: "xaccount_address_t \<Rightarrow> xeth_address_t" where
  "eth_build_from (account_build_from a) = a"

text \<open>
  Modelled from the spec: the \<^verbatim>\<open>method_id_*\<close> constants that label the cases of the
  \<^verbatim>\<open>switch\<close> are declared in a header that is not part of the sources. The 32-bit
  selector space is the thirteen named constants and everything else (the
  \<^verbatim>\<open>default\<close> label).
\<close>

datatype method_id =
    method_id_decimals
  | method_id_total_supply
  | method_id_balance_of
  | method_id_transfer
  | method_id_transfer_from
  | method_id_approve
  | method_id_allowance
  | method_id_mint
  | method_id_burn_from
  | method_id_transfer_ownership
  | method_id_set_controller
  | method_id_owner
  | method_id_controller
  | method_id_other

text \<open>
  Modelled from the spec: the status enumerations are declared in a header that is not part
  of the sources. \<open>precompile_error\<close> is the failure class, \<open>minor_status_t\<close> the
  \<^verbatim>\<open>static_cast<uint32_t>\<close> of the member of \<^verbatim>\<open>precompile_error_ExitError\<close>,
  \<^verbatim>\<open>precompile_error_ExitRevert\<close> or \<^verbatim>\<open>precompile_error_ExitFatal\<close> that the source
  assigns. \<open>Returned\<close> is the one success status the source assigns; \<open>Stopped\<close> and
  \<open>Suicided\<close> are the other success exits of the EVM, which \<open>execute\<close> never assigns.
\<close>

datatype precompile_error = Error | Revert | Fatal

datatype minor_status_t =
    ExitError_OutOfGas
  | ExitRevert_Reverted
  | ExitFatal_NotSupported
  | ExitFatal_Other

datatype precompile_output_ExitSucceed = Stopped | Returned | Suicided

record xevm_log_t =
  log_address :: xeth_address_t
  log_topics :: "xh256_t list"
  log_data :: xbytes_t

text \<open>
  The fields of the two structures keep their names, except that \<^verbatim>\<open>output.output\<close>
  is \<open>output_bytes\<close>, and \<^verbatim>\<open>err.cost\<close> and \<^verbatim>\<open>err.output\<close> are
  \<open>err_cost\<close> and \<open>err_output\<close>.
\<close>

record sys_contract_precompile_output =
  exit_status :: precompile_output_ExitSucceed
  cost :: u64
  output_bytes :: xbytes_t
  logs :: "xevm_log_t list"

record sys_contract_precompile_error =
  fail_status :: precompile_error
  minor_status :: minor_status_t
  err_cost :: u64
  err_output :: xbytes_t

record sys_contract_context =
  address :: xeth_address_t
  caller :: xeth_address_t

text \<open>What a call leaves behind: the returned boolean, both structures and the staged state.\<close>

record 's execute_result =
  ret :: bool
  r_output :: sys_contract_precompile_output
  r_err :: sys_contract_precompile_error
  r_state :: 's

subsection \<open>Constants and collaborators that the sources do not contain\<close>

text \<open>
  The value of \<^verbatim>\<open>xchain_uuid_t::eth\<close> and the four event signature hashes are constants
  of headers that are not part of the sources; they are parameters of the model.
\<close>

record contract_constants =
  chain_uuid_eth :: xchain_uuid_t
  event_hex_string_transfer :: xh256_t
  event_hex_string_approve :: xh256_t
  event_hex_string_ownership_transferred :: xh256_t
  event_hex_string_controller_set :: xh256_t

text \<open>
  The ABI decoder (\<^verbatim>\<open>evm_common::xabi_decoder_t\<close>) is an external collaborator. The
  model takes its operations as a parameter, over any type \<open>'d\<close> of decoder states; an
  operation that sets the error code returns \<open>None\<close>, an extraction that succeeds returns the
  value and the decoder after it. \<^verbatim>\<open>abi_decoder.empty()\<close> is \<open>abi_size = 0\<close>.
\<close>

record 'd abi_decoder_ops =
  abi_build_from :: "xbytes_t \<Rightarrow> 'd option"
  abi_extract_selector :: "'d \<Rightarrow> (method_id \<times> 'd) option"
  abi_size :: "'d \<Rightarrow> nat"
  abi_extract_address :: "'d \<Rightarrow> (xeth_address_t \<times> 'd) option"
  abi_extract_u256 :: "'d \<Rightarrow> (u256 \<times> 'd) option"

text \<open>
  The staged account state (\<^verbatim>\<open>statectx::xstatectx_face_t\<close> and the unit states it
  loads) is an external collaborator as well. The model takes the operations the source calls
  as a parameter, over any type \<open>'s\<close> of staged states. \<^verbatim>\<open>load_unit_state(a)\<close>
  followed by an operation on the handle is the operation applied to the state at account
  \<open>a\<close>; the token is always \<^verbatim>\<open>xtoken_id_t::usdt\<close>, and the owner and the
  controller are read and written on the account \<^verbatim>\<open>evm_usdt_contract_address\<close>.
  An operation with an \<^verbatim>\<open>ec\<close> parameter returns whether it set the error code,
  and the state it leaves.
\<close>

record 's ledger_ops =
  tep_token_balance :: "'s \<Rightarrow> xaccount_address_t \<Rightarrow> u256"
  transfer :: "'s \<Rightarrow> xaccount_address_t \<Rightarrow> xaccount_address_t \<Rightarrow> u256 \<Rightarrow> bool \<times> 's"
  update_allowance_decrease ::
    "'s \<Rightarrow> xaccount_address_t \<Rightarrow> xaccount_address_t \<Rightarrow> u256 \<Rightarrow> bool \<times> 's"
  approve :: "'s \<Rightarrow> xaccount_address_t \<Rightarrow> xaccount_address_t \<Rightarrow> u256 \<Rightarrow> bool \<times> 's"
  allowance :: "'s \<Rightarrow> xaccount_address_t \<Rightarrow> xaccount_address_t \<Rightarrow> u256"
  tep_token_deposit :: "'s \<Rightarrow> xaccount_address_t \<Rightarrow> u256 \<Rightarrow> 's"
  tep_token_withdraw :: "'s \<Rightarrow> xaccount_address_t \<Rightarrow> u256 \<Rightarrow> 's"
  tep_token_owner :: "'s \<Rightarrow> xchain_uuid_t \<Rightarrow> xaccount_address_t"
  set_tep_token_owner :: "'s \<Rightarrow> xchain_uuid_t \<Rightarrow> xaccount_address_t \<Rightarrow> bool \<times> 's"
  tep_token_controller :: "'s \<Rightarrow> xchain_uuid_t \<Rightarrow> xaccount_address_t"
  set_tep_token_controller :: "'s \<Rightarrow> xchain_uuid_t \<Rightarrow> xaccount_address_t \<Rightarrow> bool \<times> 's"

text \<open>
  Modelled from the spec: \<^verbatim>\<open>top::to_bytes\<close> on a \<^verbatim>\<open>u256\<close> is not part of the
  sources; the spec gives it as the 32-byte big-endian encoding. \<open>to_h256\<close> is
  \<^verbatim>\<open>xeth_address_t::to_h256()\<close>, the address left-padded to 32 bytes.
\<close>

definition to_bytes :: "u256 \<Rightarrow> xbytes_t" where
  "to_bytes v = map (\<lambda>i. ucast (drop_bit (8 * (31 - i)) v)) [0..<32]"

definition to_h256 :: "xeth_address_t \<Rightarrow> xh256_t" where
  "to_h256 a = ucast a"

section \<open>The three ways a case leaves the function\<close>

text \<open>
  Every case of the source ends in one of three blocks of assignments followed by
  \<^verbatim>\<open>return\<close>. \<open>exit_fail\<close> assigns \<^verbatim>\<open>err.fail_status\<close> and
  \<^verbatim>\<open>err.minor_status\<close> and returns false. \<open>exit_revert\<close> assigns these two to
  \<^verbatim>\<open>Revert\<close> and \<^verbatim>\<open>Reverted\<close>, as well as \<^verbatim>\<open>err.cost\<close> and
  \<^verbatim>\<open>err.output\<close>, and returns the given boolean. \<open>exit_returned\<close> assigns
  \<^verbatim>\<open>output.exit_status\<close>, \<^verbatim>\<open>output.cost\<close> and \<^verbatim>\<open>output.output\<close>, pushes the
  given logs onto \<^verbatim>\<open>output.logs\<close> and returns true.
\<close>

definition exit_fail ::
  "'s \<Rightarrow> sys_contract_precompile_output \<Rightarrow> sys_contract_precompile_error \<Rightarrow>
   precompile_error \<Rightarrow> minor_status_t \<Rightarrow> 's execute_result" where
  "exit_fail st out0 err0 f m =
     \<lparr>ret = False, r_output = out0,
      r_err = err0\<lparr>fail_status := f, minor_status := m\<rparr>, r_state = st\<rparr>"

definition exit_revert ::
  "bool \<Rightarrow> 's \<Rightarrow> sys_contract_precompile_output \<Rightarrow> sys_contract_precompile_error \<Rightarrow>
   u64 \<Rightarrow> xbytes_t \<Rightarrow> 's execute_result" where
  "exit_revert b st out0 err0 c res =
     \<lparr>ret = b, r_output = out0,
      r_err = err0\<lparr>fail_status := Revert, minor_status := ExitRevert_Reverted,
                   err_cost := c, err_output := res\<rparr>,
      r_state = st\<rparr>"

definition exit_returned ::
  "'s \<Rightarrow> sys_contract_precompile_output \<Rightarrow> sys_contract_precompile_error \<Rightarrow>
   xbytes_t \<Rightarrow> xevm_log_t list \<Rightarrow> 's execute_result" where
  "exit_returned st out0 err0 bs ls =
     \<lparr>ret = True,
      r_output = out0\<lparr>exit_status := Returned, cost := 0, output_bytes := bs,
                      logs := logs out0 @ ls\<rparr>,
      r_err = err0, r_state = st\<rparr>"

section \<open>The cases of the switch\<close>

text \<open>
  One definition for each case label, in the order of the source. In every definition
  \<open>C\<close> holds the constants, \<open>D\<close> the decoder operations, \<open>L\<close> the ledger
  operations, \<open>abi_decoder\<close> is the decoder after the selector has been extracted, and
  \<open>out0\<close>, \<open>err0\<close> are the structures as the caller passed them. The local
  \<^verbatim>\<open>value\<close> of the source is \<open>val\<close>.
\<close>

definition case_method_id_decimals ::
  "'s \<Rightarrow> sys_contract_precompile_output \<Rightarrow> sys_contract_precompile_error \<Rightarrow>
   's execute_result" where
  "case_method_id_decimals st out0 err0 = exit_returned st out0 err0 (to_bytes 18) []"

definition case_method_id_total_supply ::
  "'d abi_decoder_ops \<Rightarrow> 'd \<Rightarrow> u64 \<Rightarrow> 's \<Rightarrow> sys_contract_precompile_output \<Rightarrow>
   sys_contract_precompile_error \<Rightarrow> 's execute_result" where
  "case_method_id_total_supply D abi_decoder target_gas st out0 err0 =
    (let total_supply_gas_cost = 2538 in
     if target_gas < total_supply_gas_cost then exit_fail st out0 err0 Error ExitError_OutOfGas
     else if \<not> (abi_size D abi_decoder = 0) then exit_fail st out0 err0 Fatal ExitFatal_Other
     else
       let supply = 45257057549529550000000000000 in
       exit_returned st out0 err0 (to_bytes supply) [])"

definition case_method_id_balance_of ::
  "'d abi_decoder_ops \<Rightarrow> 's ledger_ops \<Rightarrow> 'd \<Rightarrow> u64 \<Rightarrow> 's \<Rightarrow>
   sys_contract_precompile_output \<Rightarrow> sys_contract_precompile_error \<Rightarrow> 's execute_result" where
  "case_method_id_balance_of D L abi_decoder target_gas st out0 err0 =
    (let balance_of_gas_cost = 3268 in
     if target_gas < balance_of_gas_cost then exit_fail st out0 err0 Error ExitError_OutOfGas
     else if abi_size D abi_decoder \<noteq> 1 then exit_fail st out0 err0 Fatal ExitFatal_Other
     else
       case abi_extract_address D abi_decoder of
         None \<Rightarrow> exit_fail st out0 err0 Fatal ExitFatal_Other
       | Some (eth_address, d1) \<Rightarrow>
           let val = tep_token_balance L st (account_build_from eth_address) in
           exit_returned st out0 err0 (to_bytes val) [])"

definition case_method_id_transfer ::
  "contract_constants \<Rightarrow> 'd abi_decoder_ops \<Rightarrow> 's ledger_ops \<Rightarrow> 'd \<Rightarrow> u64 \<Rightarrow>
   sys_contract_context \<Rightarrow> bool \<Rightarrow> 's \<Rightarrow> sys_contract_precompile_output \<Rightarrow>
   sys_contract_precompile_error \<Rightarrow> 's execute_result" where
  "case_method_id_transfer C D L abi_decoder target_gas context is_static st out0 err0 =
    (let transfer_gas_cost = 18446; result = replicate 32 0 in
     if is_static then exit_revert False st out0 err0 transfer_gas_cost result
     else if target_gas < transfer_gas_cost then exit_fail st out0 err0 Error ExitError_OutOfGas
     else if abi_size D abi_decoder \<noteq> 2 then exit_fail st out0 err0 Fatal ExitFatal_Other
     else
       case abi_extract_address D abi_decoder of
         None \<Rightarrow> exit_fail st out0 err0 Fatal ExitFatal_Other
       | Some (recipient_address, d1) \<Rightarrow>
          (case abi_extract_u256 D d1 of
             None \<Rightarrow> exit_fail st out0 err0 Fatal ExitFatal_Other
           | Some (val, d2) \<Rightarrow>
              (case transfer L st (account_build_from (caller context))
                      (account_build_from recipient_address) val of
                 (ec, st') \<Rightarrow>
                   if \<not> ec then
                     exit_returned st' out0 err0 (result[31 := 1])
                       [\<lparr>log_address = address context,
                         log_topics = [event_hex_string_transfer C, to_h256 (caller context),
                                       to_h256 recipient_address],
                         log_data = to_bytes val\<rparr>]
                   else
                     let transfer_reverted_gas_cost = 3662 in
                     exit_revert (\<not> ec) st' out0 err0 transfer_reverted_gas_cost result)))"

definition case_method_id_transfer_from ::
  "contract_constants \<Rightarrow> 'd abi_decoder_ops \<Rightarrow> 's ledger_ops \<Rightarrow> 'd \<Rightarrow> u64 \<Rightarrow>
   sys_contract_context \<Rightarrow> bool \<Rightarrow> 's \<Rightarrow> sys_contract_precompile_output \<Rightarrow>
   sys_contract_precompile_error \<Rightarrow> 's execute_result" where
  "case_method_id_transfer_from C D L abi_decoder target_gas context is_static st out0 err0 =
    (let transfer_from_gas_cost = 18190; result = replicate 32 0 in
     if is_static then exit_revert False st out0 err0 transfer_from_gas_cost result
     else if target_gas < transfer_from_gas_cost then
       exit_fail st out0 err0 Error ExitError_OutOfGas
     else if abi_size D abi_decoder \<noteq> 3 then exit_fail st out0 err0 Fatal ExitFatal_Other
     else
       case abi_extract_address D abi_decoder of
         None \<Rightarrow> exit_fail st out0 err0 Fatal ExitFatal_Other
       | Some (owner_address, d1) \<Rightarrow>
          (case abi_extract_address D d1 of
             None \<Rightarrow> exit_fail st out0 err0 Fatal ExitFatal_Other
           | Some (recipient_address, d2) \<Rightarrow>
              (case abi_extract_u256 D d2 of
                 None \<Rightarrow> exit_fail st out0 err0 Fatal ExitFatal_Other
               | Some (val, d3) \<Rightarrow>
                  (case update_allowance_decrease L st (account_build_from owner_address)
                          (account_build_from (caller context)) val of
                     (ec1, st1) \<Rightarrow>
                      (case (if \<not> ec1
                             then transfer L st1 (account_build_from owner_address)
                                    (account_build_from recipient_address) val
                             else (ec1, st1)) of
                         (ec, st') \<Rightarrow>
                           if \<not> ec then
                             exit_returned st' out0 err0 (result[31 := 1])
                               [\<lparr>log_address = address context,
                                 log_topics = [event_hex_string_transfer C,
                                               to_h256 owner_address,
                                               to_h256 recipient_address],
                                 log_data = to_bytes val\<rparr>]
                           else
                             let transfer_from_reverted_gas_cost = 4326 in
                             exit_revert (\<not> ec) st' out0 err0
                               transfer_from_reverted_gas_cost result)))))"

definition case_method_id_approve ::
  "contract_constants \<Rightarrow> 'd abi_decoder_ops \<Rightarrow> 's ledger_ops \<Rightarrow> 'd \<Rightarrow> u64 \<Rightarrow>
   sys_contract_context \<Rightarrow> bool \<Rightarrow> 's \<Rightarrow> sys_contract_precompile_output \<Rightarrow>
   sys_contract_precompile_error \<Rightarrow> 's execute_result" where
  "case_method_id_approve C D L abi_decoder target_gas context is_static st out0 err0 =
    (let approve_gas_cost = 18599; result = replicate 32 0 in
     if is_static then exit_revert False st out0 err0 approve_gas_cost result
     else if target_gas < approve_gas_cost then exit_fail st out0 err0 Error ExitError_OutOfGas
     else if abi_size D abi_decoder \<noteq> 2 then exit_fail st out0 err0 Fatal ExitFatal_Other
     else
       case abi_extract_address D abi_decoder of
         None \<Rightarrow> exit_fail st out0 err0 Fatal ExitFatal_Other
       | Some (spender_address, d1) \<Rightarrow>
          (case abi_extract_u256 D d1 of
             None \<Rightarrow> exit_fail st out0 err0 Fatal ExitFatal_Other
           | Some (amount, d2) \<Rightarrow>
              (case approve L st (account_build_from (caller context))
                      (account_build_from spender_address) amount of
                 (ec, st') \<Rightarrow>
                   if \<not> ec then
                     exit_returned st' out0 err0 (result[31 := 1])
                       [\<lparr>log_address = address context,
                         log_topics = [event_hex_string_approve C, to_h256 (caller context),
                                       to_h256 spender_address],
                         log_data = to_bytes amount\<rparr>]
                   else
                     exit_revert True st' out0 err0 (approve_gas_cost div 2) result)))"

definition case_method_id_allowance ::
  "'d abi_decoder_ops \<Rightarrow> 's ledger_ops \<Rightarrow> 'd \<Rightarrow> u64 \<Rightarrow> 's \<Rightarrow>
   sys_contract_precompile_output \<Rightarrow> sys_contract_precompile_error \<Rightarrow> 's execute_result" where
  "case_method_id_allowance D L abi_decoder target_gas st out0 err0 =
    (let allowance_gas_cost = 3987 in
     if target_gas < allowance_gas_cost then exit_fail st out0 err0 Error ExitError_OutOfGas
     else if abi_size D abi_decoder \<noteq> 2 then exit_fail st out0 err0 Fatal ExitFatal_Other
     else
       case abi_extract_address D abi_decoder of
         None \<Rightarrow> exit_fail st out0 err0 Fatal ExitFatal_Other
       | Some (owner_address, d1) \<Rightarrow>
          (case abi_extract_address D d1 of
             None \<Rightarrow> exit_fail st out0 err0 Fatal ExitFatal_Other
           | Some (spender_address, d2) \<Rightarrow>
               let result = to_bytes (allowance L st (account_build_from owner_address)
                                        (account_build_from spender_address)) in
               exit_returned st out0 err0 result []))"

text \<open>
  The four privileged cases compare the caller with the stored role right after the static
  check and before the gas check. \<^verbatim>\<open>tep_token_deposit\<close> and
  \<^verbatim>\<open>tep_token_withdraw\<close> take no error code, so \<^verbatim>\<open>ec\<close> is still clear when the
  source tests it after them.
\<close>

definition case_method_id_mint ::
  "contract_constants \<Rightarrow> 'd abi_decoder_ops \<Rightarrow> 's ledger_ops \<Rightarrow> xchain_uuid_t \<Rightarrow> 'd \<Rightarrow> u64 \<Rightarrow>
   sys_contract_context \<Rightarrow> bool \<Rightarrow> 's \<Rightarrow> sys_contract_precompile_output \<Rightarrow>
   sys_contract_precompile_error \<Rightarrow> 's execute_result" where
  "case_method_id_mint C D L chain_uuid abi_decoder target_gas context is_static st out0 err0 =
    (let mint_gas_cost = 3155; result = replicate 32 0 in
     if is_static then exit_revert False st out0 err0 mint_gas_cost result
     else
       let msg_sender = account_build_from (caller context);
           token_controller = tep_token_controller L st chain_uuid in
       if msg_sender \<noteq> token_controller then exit_fail st out0 err0 Fatal ExitFatal_Other
       else if target_gas < mint_gas_cost then exit_fail st out0 err0 Error ExitError_OutOfGas
       else if abi_size D abi_decoder \<noteq> 2 then exit_fail st out0 err0 Fatal ExitFatal_Other
       else
         case abi_extract_address D abi_decoder of
           None \<Rightarrow> exit_fail st out0 err0 Fatal ExitFatal_Other
         | Some (recver, d1) \<Rightarrow>
            (case abi_extract_u256 D d1 of
               None \<Rightarrow> exit_fail st out0 err0 Fatal ExitFatal_Other
             | Some (val, d2) \<Rightarrow>
                 let ec = False;
                     st' = tep_token_deposit L st (account_build_from recver) val in
                 if \<not> ec then
                   exit_returned st' out0 err0 (result[31 := 1])
                     [\<lparr>log_address = address context,
                       log_topics = [event_hex_string_transfer C, to_h256 0, to_h256 recver],
                       log_data = to_bytes val\<rparr>]
                 else exit_revert (\<not> ec) st' out0 err0 mint_gas_cost result))"

definition case_method_id_burn_from ::
  "contract_constants \<Rightarrow> 'd abi_decoder_ops \<Rightarrow> 's ledger_ops \<Rightarrow> xchain_uuid_t \<Rightarrow> 'd \<Rightarrow> u64 \<Rightarrow>
   sys_contract_context \<Rightarrow> bool \<Rightarrow> 's \<Rightarrow> sys_contract_precompile_output \<Rightarrow>
   sys_contract_precompile_error \<Rightarrow> 's execute_result" where
  "case_method_id_burn_from C D L chain_uuid abi_decoder target_gas context is_static st out0 err0 =
    (let burn_gas_cost = 3155; result = replicate 32 0 in
     if is_static then exit_revert False st out0 err0 burn_gas_cost result
     else
       let msg_sender = account_build_from (caller context);
           token_controller = tep_token_controller L st chain_uuid in
       if msg_sender \<noteq> token_controller then exit_fail st out0 err0 Fatal ExitFatal_Other
       else if target_gas < burn_gas_cost then exit_fail st out0 err0 Error ExitError_OutOfGas
       else if abi_size D abi_decoder \<noteq> 2 then exit_fail st out0 err0 Fatal ExitFatal_Other
       else
         case abi_extract_address D abi_decoder of
           None \<Rightarrow> exit_fail st out0 err0 Fatal ExitFatal_Other
         | Some (burn_from, d1) \<Rightarrow>
            (case abi_extract_u256 D d1 of
               None \<Rightarrow> exit_fail st out0 err0 Fatal ExitFatal_Other
             | Some (val, d2) \<Rightarrow>
                 let ec = False;
                     st' = tep_token_withdraw L st (account_build_from burn_from) val in
                 if \<not> ec then
                   exit_returned st' out0 err0 (result[31 := 1])
                     [\<lparr>log_address = address context,
                       log_topics = [event_hex_string_transfer C, to_h256 burn_from, to_h256 0],
                       log_data = to_bytes val\<rparr>]
                 else exit_revert (\<not> ec) st' out0 err0 burn_gas_cost result))"

definition case_method_id_transfer_ownership ::
  "contract_constants \<Rightarrow> 'd abi_decoder_ops \<Rightarrow> 's ledger_ops \<Rightarrow> xchain_uuid_t \<Rightarrow> 'd \<Rightarrow> u64 \<Rightarrow>
   sys_contract_context \<Rightarrow> bool \<Rightarrow> 's \<Rightarrow> sys_contract_precompile_output \<Rightarrow>
   sys_contract_precompile_error \<Rightarrow> 's execute_result" where
  "case_method_id_transfer_ownership C D L chain_uuid abi_decoder target_gas context is_static
     st out0 err0 =
    (let transfer_ownership_gas_cost = 3155; result = replicate 32 0 in
     if is_static then exit_revert False st out0 err0 transfer_ownership_gas_cost result
     else
       let msg_sender = account_build_from (caller context);
           token_owner = tep_token_owner L st chain_uuid in
       if msg_sender \<noteq> token_owner then exit_fail st out0 err0 Fatal ExitFatal_Other
       else if target_gas < transfer_ownership_gas_cost then
         exit_fail st out0 err0 Error ExitError_OutOfGas
       else if abi_size D abi_decoder \<noteq> 1 then exit_fail st out0 err0 Fatal ExitFatal_Other
       else
         case abi_extract_address D abi_decoder of
           None \<Rightarrow> exit_fail st out0 err0 Fatal ExitFatal_Other
         | Some (new_owner, d1) \<Rightarrow>
            (case set_tep_token_owner L st chain_uuid (account_build_from new_owner) of
               (ec, st') \<Rightarrow>
                 if \<not> ec then
                   exit_returned st' out0 err0 (result[31 := 1])
                     [\<lparr>log_address = address context,
                       log_topics = [event_hex_string_ownership_transferred C,
                                     to_h256 (caller context), to_h256 new_owner],
                       log_data = []\<rparr>]
                 else
                   exit_revert (\<not> ec) st' out0 err0 transfer_ownership_gas_cost result))"

definition case_method_id_set_controller ::
  "contract_constants \<Rightarrow> 'd abi_decoder_ops \<Rightarrow> 's ledger_ops \<Rightarrow> xchain_uuid_t \<Rightarrow> 'd \<Rightarrow> u64 \<Rightarrow>
   sys_contract_context \<Rightarrow> bool \<Rightarrow> 's \<Rightarrow> sys_contract_precompile_output \<Rightarrow>
   sys_contract_precompile_error \<Rightarrow> 's execute_result" where
  "case_method_id_set_controller C D L chain_uuid abi_decoder target_gas context is_static
     st out0 err0 =
    (let set_controller_gas_cost = 3155; result = replicate 32 0 in
     if is_static then exit_revert False st out0 err0 set_controller_gas_cost result
     else
       let msg_sender = account_build_from (caller context);
           token_owner = tep_token_owner L st chain_uuid in
       if msg_sender \<noteq> token_owner then exit_fail st out0 err0 Fatal ExitFatal_Other
       else if target_gas < set_controller_gas_cost then
         exit_fail st out0 err0 Error ExitError_OutOfGas
       else if abi_size D abi_decoder \<noteq> 1 then exit_fail st out0 err0 Fatal ExitFatal_Other
       else
         case abi_extract_address D abi_decoder of
           None \<Rightarrow> exit_fail st out0 err0 Fatal ExitFatal_Other
         | Some (new_controller, d1) \<Rightarrow>
             let old_controller = eth_build_from (tep_token_controller L st chain_uuid) in
             (case set_tep_token_controller L st chain_uuid
                     (account_build_from new_controller) of
               (ec, st') \<Rightarrow>
                 if \<not> ec then
                   exit_returned st' out0 err0 (result[31 := 1])
                     [\<lparr>log_address = address context,
                       log_topics = [event_hex_string_controller_set C,
                                     to_h256 old_controller, to_h256 new_controller],
                       log_data = []\<rparr>]
                 else
                   exit_revert (\<not> ec) st' out0 err0 set_controller_gas_cost result))"

definition case_method_id_owner ::
  "'s ledger_ops \<Rightarrow> xchain_uuid_t \<Rightarrow> 's \<Rightarrow> sys_contract_precompile_output \<Rightarrow>
   sys_contract_precompile_error \<Rightarrow> 's execute_result" where
  "case_method_id_owner L chain_uuid st out0 err0 =
    (let token_owner = tep_token_owner L st chain_uuid;
         owner = eth_build_from token_owner in
     exit_returned st out0 err0 (to_bytes (to_h256 owner)) [])"

definition case_method_id_controller ::
  "'s ledger_ops \<Rightarrow> xchain_uuid_t \<Rightarrow> 's \<Rightarrow> sys_contract_precompile_output \<Rightarrow>
   sys_contract_precompile_error \<Rightarrow> 's execute_result" where
  "case_method_id_controller L chain_uuid st out0 err0 =
    (let controller = eth_build_from (tep_token_controller L st chain_uuid) in
     exit_returned st out0 err0 (to_bytes (to_h256 controller)) [])"

section \<open>The entry point\<close>

text \<open>
  \<open>switch_method_id\<close> is the \<^verbatim>\<open>switch (function_selector.method_id)\<close> of the source,
  \<open>execute\<close> the whole function: the input must not be empty, its first byte must be the
  chain tag \<^verbatim>\<open>eth\<close>, the decoder is built from the remaining bytes and the selector is
  extracted from it.
\<close>

definition switch_method_id ::
  "contract_constants \<Rightarrow> 'd abi_decoder_ops \<Rightarrow> 's ledger_ops \<Rightarrow> method_id \<Rightarrow> xchain_uuid_t \<Rightarrow>
   'd \<Rightarrow> u64 \<Rightarrow> sys_contract_context \<Rightarrow> bool \<Rightarrow> 's \<Rightarrow> sys_contract_precompile_output \<Rightarrow>
   sys_contract_precompile_error \<Rightarrow> 's execute_result" where
  "switch_method_id C D L m chain_uuid abi_decoder target_gas context is_static st out0 err0 =
    (case m of
       method_id_decimals \<Rightarrow> case_method_id_decimals st out0 err0
     | method_id_total_supply \<Rightarrow>
         case_method_id_total_supply D abi_decoder target_gas st out0 err0
     | method_id_balance_of \<Rightarrow>
         case_method_id_balance_of D L abi_decoder target_gas st out0 err0
     | method_id_transfer \<Rightarrow>
         case_method_id_transfer C D L abi_decoder target_gas context is_static st out0 err0
     | method_id_transfer_from \<Rightarrow>
         case_method_id_transfer_from C D L abi_decoder target_gas context is_static st out0 err0
     | method_id_approve \<Rightarrow>
         case_method_id_approve C D L abi_decoder target_gas context is_static st out0 err0
     | method_id_allowance \<Rightarrow>
         case_method_id_allowance D L abi_decoder target_gas st out0 err0
     | method_id_mint \<Rightarrow>
         case_method_id_mint C D L chain_uuid abi_decoder target_gas context is_static
           st out0 err0
     | method_id_burn_from \<Rightarrow>
         case_method_id_burn_from C D L chain_uuid abi_decoder target_gas context is_static
           st out0 err0
     | method_id_transfer_ownership \<Rightarrow>
         case_method_id_transfer_ownership C D L chain_uuid abi_decoder target_gas context
           is_static st out0 err0
     | method_id_set_controller \<Rightarrow>
         case_method_id_set_controller C D L chain_uuid abi_decoder target_gas context
           is_static st out0 err0
     | method_id_owner \<Rightarrow> case_method_id_owner L chain_uuid st out0 err0
     | method_id_controller \<Rightarrow> case_method_id_controller L chain_uuid st out0 err0
     | method_id_other \<Rightarrow> exit_fail st out0 err0 Fatal ExitFatal_NotSupported)"

definition execute ::
  "contract_constants \<Rightarrow> 'd abi_decoder_ops \<Rightarrow> 's ledger_ops \<Rightarrow> xbytes_t \<Rightarrow> u64 \<Rightarrow>
   sys_contract_context \<Rightarrow> bool \<Rightarrow> 's \<Rightarrow> sys_contract_precompile_output \<Rightarrow>
   sys_contract_precompile_error \<Rightarrow> 's execute_result" where
  "execute C D L input target_gas context is_static st out0 err0 =
    (if input = [] then exit_fail st out0 err0 Fatal ExitFatal_Other
     else
       let chain_uuid = hd input in
       if chain_uuid \<noteq> chain_uuid_eth C then exit_fail st out0 err0 Fatal ExitFatal_NotSupported
       else
         case abi_build_from D (tl input) of
           None \<Rightarrow> exit_fail st out0 err0 Fatal ExitFatal_Other
         | Some abi_decoder0 \<Rightarrow>
            (case abi_extract_selector D abi_decoder0 of
               None \<Rightarrow> exit_fail st out0 err0 Fatal ExitFatal_Other
             | Some (function_selector, abi_decoder) \<Rightarrow>
                 switch_method_id C D L function_selector chain_uuid abi_decoder target_gas
                   context is_static st out0 err0))"

section \<open>The vocabulary of the specification\<close>

text \<open>
  \<open>method_call C D input\<close> is the method an input selects and the decoder that holds
  its parameters: it is defined when the input is not empty, carries the chain tag
  \<^verbatim>\<open>eth\<close>, and the decoder can be built and yields a selector.
\<close>

definition method_call ::
  "contract_constants \<Rightarrow> 'd abi_decoder_ops \<Rightarrow> xbytes_t \<Rightarrow> (method_id \<times> 'd) option" where
  "method_call C D input =
    (if input = [] then None
     else if hd input \<noteq> chain_uuid_eth C then None
     else case abi_build_from D (tl input) of
            None \<Rightarrow> None
          | Some abi_decoder0 \<Rightarrow> abi_extract_selector D abi_decoder0)"

text \<open>The method table of the specification (section 4.2): gas, static eligibility, role.\<close>

fun method_gas_cost :: "method_id \<Rightarrow> u64" where
  "method_gas_cost method_id_decimals = 0"
| "method_gas_cost method_id_total_supply = 2538"
| "method_gas_cost method_id_balance_of = 3268"
| "method_gas_cost method_id_transfer = 18446"
| "method_gas_cost method_id_transfer_from = 18190"
| "method_gas_cost method_id_approve = 18599"
| "method_gas_cost method_id_allowance = 3987"
| "method_gas_cost method_id_mint = 3155"
| "method_gas_cost method_id_burn_from = 3155"
| "method_gas_cost method_id_transfer_ownership = 3155"
| "method_gas_cost method_id_set_controller = 3155"
| "method_gas_cost method_id_owner = 0"
| "method_gas_cost method_id_controller = 0"
| "method_gas_cost method_id_other = 0"

definition mutating :: "method_id \<Rightarrow> bool" where
  "mutating m =
    (m = method_id_transfer \<or> m = method_id_transfer_from \<or> m = method_id_approve \<or>
     m = method_id_mint \<or> m = method_id_burn_from \<or> m = method_id_transfer_ownership \<or>
     m = method_id_set_controller)"

definition controller_only :: "method_id \<Rightarrow> bool" where
  "controller_only m = (m = method_id_mint \<or> m = method_id_burn_from)"

definition owner_only :: "method_id \<Rightarrow> bool" where
  "owner_only m = (m = method_id_transfer_ownership \<or> m = method_id_set_controller)"

text \<open>
  The authorization guard of the specification (section 4.4): the caller's native address
  differs from the stored role of a privileged method.
\<close>

definition unauthorized ::
  "contract_constants \<Rightarrow> 's ledger_ops \<Rightarrow> 's \<Rightarrow> sys_contract_context \<Rightarrow> method_id \<Rightarrow> bool" where
  "unauthorized C L st context m =
    ((controller_only m \<and>
        account_build_from (caller context) \<noteq> tep_token_controller L st (chain_uuid_eth C)) \<or>
     (owner_only m \<and>
        account_build_from (caller context) \<noteq> tep_token_owner L st (chain_uuid_eth C)))"

text \<open>
  The declared parameters of each method (section 4.2), and what decoding them in order
  yields. \<open>params_ok\<close> says that the parameter count is the declared arity and that every
  parameter decodes.
\<close>

datatype param_type = Address_t | Uint256_t

datatype param_value = Address_v xeth_address_t | Uint256_v u256

fun declared_params :: "method_id \<Rightarrow> param_type list" where
  "declared_params method_id_decimals = []"
| "declared_params method_id_total_supply = []"
| "declared_params method_id_balance_of = [Address_t]"
| "declared_params method_id_transfer = [Address_t, Uint256_t]"
| "declared_params method_id_transfer_from = [Address_t, Address_t, Uint256_t]"
| "declared_params method_id_approve = [Address_t, Uint256_t]"
| "declared_params method_id_allowance = [Address_t, Address_t]"
| "declared_params method_id_mint = [Address_t, Uint256_t]"
| "declared_params method_id_burn_from = [Address_t, Uint256_t]"
| "declared_params method_id_transfer_ownership = [Address_t]"
| "declared_params method_id_set_controller = [Address_t]"
| "declared_params method_id_owner = []"
| "declared_params method_id_controller = []"
| "declared_params method_id_other = []"

fun decode_params :: "'d abi_decoder_ops \<Rightarrow> 'd \<Rightarrow> param_type list \<Rightarrow> param_value list option" where
  "decode_params D d [] = Some []"
| "decode_params D d (Address_t # ts) =
    (case abi_extract_address D d of
       None \<Rightarrow> None
     | Some (a, d') \<Rightarrow>
        (case decode_params D d' ts of None \<Rightarrow> None | Some vs \<Rightarrow> Some (Address_v a # vs)))"
| "decode_params D d (Uint256_t # ts) =
    (case abi_extract_u256 D d of
       None \<Rightarrow> None
     | Some (v, d') \<Rightarrow>
        (case decode_params D d' ts of None \<Rightarrow> None | Some vs \<Rightarrow> Some (Uint256_v v # vs)))"

definition params_ok :: "'d abi_decoder_ops \<Rightarrow> 'd \<Rightarrow> method_id \<Rightarrow> bool" where
  "params_ok D d m =
    (abi_size D d = length (declared_params m) \<and>
     decode_params D d (declared_params m) \<noteq> None)"

definition checks_parameters :: "method_id \<Rightarrow> bool" where
  "checks_parameters m =
    (m \<noteq> method_id_decimals \<and> m \<noteq> method_id_owner \<and> m \<noteq> method_id_controller \<and>
     m \<noteq> method_id_other)"

section \<open>A ledger and a decoder\<close>

text \<open>
  Modelled from the spec: the account ledger is not part of the sources. The specification
  (sections 3 and 6) gives balances per account, allowances per owner and spender, and one
  owner and one controller per chain tag; balances and allowances never go negative, an
  operation fails rather than underflows; \<^verbatim>\<open>approve\<close> sets the allowance absolutely.
  A transfer debits the sender and then credits the recipient; a withdrawal larger than the
  balance leaves the balance as it is. Amounts are \<^verbatim>\<open>u256\<close> values, as in the
  source.
\<close>

record ledger_state =
  balances :: "xaccount_address_t \<Rightarrow> u256"
  allowances :: "xaccount_address_t \<Rightarrow> xaccount_address_t \<Rightarrow> u256"
  owners :: "xchain_uuid_t \<Rightarrow> xaccount_address_t"
  controllers :: "xchain_uuid_t \<Rightarrow> xaccount_address_t"

definition ledger_deposit :: "ledger_state \<Rightarrow> xaccount_address_t \<Rightarrow> u256 \<Rightarrow> ledger_state" where
  "ledger_deposit s a v = s\<lparr>balances := (balances s)(a := balances s a + v)\<rparr>"

definition ledger_withdraw :: "ledger_state \<Rightarrow> xaccount_address_t \<Rightarrow> u256 \<Rightarrow> ledger_state" where
  "ledger_withdraw s a v =
    (if balances s a < v then s else s\<lparr>balances := (balances s)(a := balances s a - v)\<rparr>)"

definition ledger_transfer ::
  "ledger_state \<Rightarrow> xaccount_address_t \<Rightarrow> xaccount_address_t \<Rightarrow> u256 \<Rightarrow> bool \<times> ledger_state" where
  "ledger_transfer s sender recver v =
    (if balances s sender < v then (True, s)
     else (False, ledger_deposit (ledger_withdraw s sender v) recver v))"

definition ledger_update_allowance_decrease ::
  "ledger_state \<Rightarrow> xaccount_address_t \<Rightarrow> xaccount_address_t \<Rightarrow> u256 \<Rightarrow> bool \<times> ledger_state" where
  "ledger_update_allowance_decrease s own spender v =
    (if allowances s own spender < v then (True, s)
     else (False, s\<lparr>allowances :=
              (allowances s)(own := (allowances s own)(spender := allowances s own spender - v))\<rparr>))"

definition ledger_approve ::
  "ledger_state \<Rightarrow> xaccount_address_t \<Rightarrow> xaccount_address_t \<Rightarrow> u256 \<Rightarrow> bool \<times> ledger_state" where
  "ledger_approve s own spender v =
    (False, s\<lparr>allowances := (allowances s)(own := (allowances s own)(spender := v))\<rparr>)"

definition usdt_ledger :: "ledger_state ledger_ops" where
  "usdt_ledger =
    \<lparr>tep_token_balance = (\<lambda>s a. balances s a),
     transfer = ledger_transfer,
     update_allowance_decrease = ledger_update_allowance_decrease,
     approve = ledger_approve,
     allowance = (\<lambda>s own spender. allowances s own spender),
     tep_token_deposit = ledger_deposit,
     tep_token_withdraw = ledger_withdraw,
     tep_token_owner = (\<lambda>s c. owners s c),
     set_tep_token_owner = (\<lambda>s c a. (False, s\<lparr>owners := (owners s)(c := a)\<rparr>)),
     tep_token_controller = (\<lambda>s c. controllers s c),
     set_tep_token_controller = (\<lambda>s c a. (False, s\<lparr>controllers := (controllers s)(c := a)\<rparr>))\<rparr>"

text \<open>
  Modelled from the spec: the ABI decoder is not part of the sources. The specification
  (section 4.1) gives the layout after the chain tag as a 4-byte method selector followed by
  the ABI-encoded arguments, 32 bytes each, big-endian; an address is a 32-byte word whose
  high 12 bytes are zero. The decoder state is the bytes not yet consumed. The selectors
  are the Solidity selectors of the methods of section 4.2.
\<close>

definition be_word :: "xbytes_t \<Rightarrow> 'a::len word" where
  "be_word bs = foldl (\<lambda>acc b. acc * 256 + ucast b) 0 bs"

definition selector_method_id :: "32 word \<Rightarrow> method_id" where
  "selector_method_id w =
    (if w = 0x313ce567 then method_id_decimals
     else if w = 0x18160ddd then method_id_total_supply
     else if w = 0x70a08231 then method_id_balance_of
     else if w = 0xa9059cbb then method_id_transfer
     else if w = 0x23b872dd then method_id_transfer_from
     else if w = 0x095ea7b3 then method_id_approve
     else if w = 0xdd62ed3e then method_id_allowance
     else if w = 0x40c10f19 then method_id_mint
     else if w = 0x79cc6790 then method_id_burn_from
     else if w = 0xf2fde38b then method_id_transfer_ownership
     else if w = 0x92eefe9b then method_id_set_controller
     else if w = 0x8da5cb5b then method_id_owner
     else if w = 0xf77c4791 then method_id_controller
     else method_id_other)"

definition abi_decoder :: "xbytes_t abi_decoder_ops" where
  "abi_decoder =
    \<lparr>abi_build_from = (\<lambda>bs. if bs = [] then None else Some bs),
     abi_extract_selector =
       (\<lambda>d. if length d < 4 then None
            else Some (selector_method_id (be_word (take 4 d)), drop 4 d)),
     abi_size = (\<lambda>d. length d div 32),
     abi_extract_address =
       (\<lambda>d. if length d < 32 \<or> take 12 d \<noteq> replicate 12 0 then None
            else Some (be_word (take 20 (drop 12 d)), drop 32 d)),
     abi_extract_u256 =
       (\<lambda>d. if length d < 32 then None else Some (be_word (take 32 d), drop 32 d))\<rparr>"

text \<open>
  Sample constants for the evaluations below. Their values are not in the sources, and the
  general theorems hold for every choice of them.
\<close>

definition usdt_constants :: contract_constants where
  "usdt_constants =
    \<lparr>chain_uuid_eth = 1,
     event_hex_string_transfer =
       0xddf252ad1be2c89b69c2b068fc378daa952ba7f163c4a11628f55a4df523b3ef,
     event_hex_string_approve =
       0x8c5be1e5ebec7d5bd14f71427d1e84f3dd0314c0f7b2291e5b200ac8c7c3b925,
     event_hex_string_ownership_transferred =
       0x8be0079c531659141344cd1fd0a4f28419497f9722a3daafe3b4186f6b6457e0,
     event_hex_string_controller_set =
       0x79f74fd5964b6943d8a1865abfb7f668c92fa3f32c0a2e3195da7d0946703ad7\<rparr>"

section \<open>Sample calls\<close>

text \<open>
  Concrete accounts, a ledger state, fresh output structures and input bytes for the
  evaluations: Alice holds 50 tokens and has approved Carol for 100; Dave is the owner and
  Erin the controller.
\<close>

definition alice :: xeth_address_t where "alice = 0xA11CE"
definition bob :: xeth_address_t where "bob = 0xB0B"
definition carol :: xeth_address_t where "carol = 0xCA201"
definition dave :: xeth_address_t where "dave = 0xDA5E"
definition erin :: xeth_address_t where "erin = 0xE218"
definition usdt_address :: xeth_address_t where "usdt_address = 0xFF00000000000000000000000000000000000005"

definition alice_calls :: sys_contract_context where
  "alice_calls = \<lparr>address = usdt_address, caller = alice\<rparr>"

definition carol_calls :: sys_contract_context where
  "carol_calls = \<lparr>address = usdt_address, caller = carol\<rparr>"

definition sample_state :: ledger_state where
  "sample_state =
    \<lparr>balances = (\<lambda>a. if a = account_build_from alice then 50 else 0),
     allowances = (\<lambda>a b. if a = account_build_from alice \<and> b = account_build_from carol
                          then 100 else 0),
     owners = (\<lambda>c. account_build_from dave),
     controllers = (\<lambda>c. account_build_from erin)\<rparr>"

definition fresh_output :: sys_contract_precompile_output where
  "fresh_output = \<lparr>exit_status = Stopped, cost = 0, output_bytes = [], logs = []\<rparr>"

definition fresh_error :: sys_contract_precompile_error where
  "fresh_error =
    \<lparr>fail_status = Error, minor_status = ExitError_OutOfGas, err_cost = 0, err_output = []\<rparr>"

definition decimals_input :: xbytes_t where
  "decimals_input = [1, 0x31, 0x3c, 0xe5, 0x67]"

definition decimals_input_with_parameter :: xbytes_t where
  "decimals_input_with_parameter = [1, 0x31, 0x3c, 0xe5, 0x67] @ to_bytes 7"

definition transfer_input :: "u256 \<Rightarrow> xbytes_t" where
  "transfer_input amt = [1, 0xa9, 0x05, 0x9c, 0xbb] @ to_bytes (ucast bob) @ to_bytes amt"

definition transfer_input_one_parameter :: xbytes_t where
  "transfer_input_one_parameter = [1, 0xa9, 0x05, 0x9c, 0xbb] @ to_bytes (ucast bob)"

definition transfer_from_input :: "u256 \<Rightarrow> xbytes_t" where
  "transfer_from_input amt =
    [1, 0x23, 0xb8, 0x72, 0xdd] @ to_bytes (ucast alice) @ to_bytes (ucast bob) @ to_bytes amt"

definition approve_input :: xbytes_t where
  "approve_input = [1, 0x09, 0x5e, 0xa7, 0xb3] @ to_bytes (ucast carol) @ to_bytes 100"

definition mint_input :: xbytes_t where
  "mint_input = [1, 0x40, 0xc1, 0x0f, 0x19] @ to_bytes (ucast bob) @ to_bytes 100"

definition transfer_ownership_input :: xbytes_t where
  "transfer_ownership_input = [1, 0xf2, 0xfd, 0xe3, 0x8b] @ to_bytes (ucast bob)"

text \<open>A ledger whose \<^verbatim>\<open>approve\<close> sets the error code and changes nothing.\<close>

definition refusing_ledger :: "ledger_state ledger_ops" where
  "refusing_ledger = usdt_ledger\<lparr>approve := (\<lambda>s own spender v. (True, s))\<rparr>"

text \<open>
  \<open>approve_fails\<close> holds of a call that selects \<^verbatim>\<open>approve\<close>, passes the static,
  gas and parameter checks, and whose ledger operation sets the error code.
\<close>

definition approve_fails ::
  "contract_constants \<Rightarrow> 'd abi_decoder_ops \<Rightarrow> 's ledger_ops \<Rightarrow> xbytes_t \<Rightarrow> u64 \<Rightarrow>
   sys_contract_context \<Rightarrow> bool \<Rightarrow> 's \<Rightarrow> bool" where
  "approve_fails C D L input target_gas context is_static st =
    (case method_call C D input of
       None \<Rightarrow> False
     | Some (m, d) \<Rightarrow>
         m = method_id_approve \<and> \<not> is_static \<and> \<not> target_gas < 18599 \<and> abi_size D d = 2 \<and>
         (case abi_extract_address D d of
            None \<Rightarrow> False
          | Some (spender_address, d1) \<Rightarrow>
             (case abi_extract_u256 D d1 of
                None \<Rightarrow> False
              | Some (amount, d2) \<Rightarrow>
                  fst (approve L st (account_build_from (caller context))
                         (account_build_from spender_address) amount))))"

text \<open>
  Modelled from the spec: the ledger is not part of the sources. The specification
  (section 3) says that balances and allowances never go negative, an operation fails
  rather than underflows: a transfer beyond the sender's balance, and a decrease beyond the
  allowance, set the error code and change nothing. The two predicates say this of a
  ledger; \<open>usdt_ledger\<close> satisfies both.
\<close>

definition transfer_fails_when_short :: "'s ledger_ops \<Rightarrow> bool" where
  "transfer_fails_when_short L =
    (\<forall>s sender recver v. tep_token_balance L s sender < v \<longrightarrow>
       transfer L s sender recver v = (True, s))"

definition decrease_fails_when_short :: "'s ledger_ops \<Rightarrow> bool" where
  "decrease_fails_when_short L =
    (\<forall>s own spender v. allowance L s own spender < v \<longrightarrow>
       update_allowance_decrease L s own spender v = (True, s))"




section \<open>Auxiliary facts\<close>

lemmas case_defs = case_method_id_decimals_def case_method_id_total_supply_def
  case_method_id_balance_of_def case_method_id_transfer_def case_method_id_transfer_from_def
  case_method_id_approve_def case_method_id_allowance_def case_method_id_mint_def
  case_method_id_burn_from_def case_method_id_transfer_ownership_def
  case_method_id_set_controller_def case_method_id_owner_def case_method_id_controller_def

lemmas role_defs = mutating_def unauthorized_def controller_only_def owner_only_def

lemma execute_method_call:
  "method_call C D input = Some (m, d) \<Longrightarrow>
   execute C D L input target_gas context is_static st out0 err0 =
   switch_method_id C D L m (chain_uuid_eth C) d target_gas context is_static st out0 err0"
  by (auto simp add: method_call_def execute_def split: if_splits option.splits)

lemma execute_no_method_call:
  "method_call C D input = None \<Longrightarrow>
   execute C D L input target_gas context is_static st out0 err0 =
     exit_fail st out0 err0 Fatal ExitFatal_Other \<or>
   execute C D L input target_gas context is_static st out0 err0 =
     exit_fail st out0 err0 Fatal ExitFatal_NotSupported"
  by (simp add: method_call_def execute_def split: if_splits option.splits)

lemma unauthorized_mutating: "unauthorized C L st context m \<Longrightarrow> mutating m"
  by (auto simp add: role_defs)

lemma switch_static:
  "mutating m \<Longrightarrow>
   switch_method_id C D L m u d target_gas context True st out0 err0 =
   exit_revert False st out0 err0 (method_gas_cost m) (replicate 32 0)"
  by (cases m) (simp_all add: mutating_def switch_method_id_def case_defs)

lemma switch_unauthorized:
  "unauthorized C L st context m \<Longrightarrow>
   switch_method_id C D L m (chain_uuid_eth C) d target_gas context False st out0 err0 =
   exit_fail st out0 err0 Fatal ExitFatal_Other"
  by (cases m) (simp_all add: role_defs switch_method_id_def case_defs)

lemma switch_out_of_gas:
  "\<not> (mutating m \<and> is_static) \<Longrightarrow> \<not> unauthorized C L st context m \<Longrightarrow>
   target_gas < method_gas_cost m \<Longrightarrow>
   switch_method_id C D L m (chain_uuid_eth C) d target_gas context is_static st out0 err0 =
   exit_fail st out0 err0 Error ExitError_OutOfGas"
  by (cases m) (simp_all add: role_defs switch_method_id_def case_defs)

lemma switch_bad_params:
  "checks_parameters m \<Longrightarrow> \<not> (mutating m \<and> is_static) \<Longrightarrow>
   \<not> unauthorized C L st context m \<Longrightarrow> \<not> target_gas < method_gas_cost m \<Longrightarrow>
   \<not> params_ok D d m \<Longrightarrow>
   switch_method_id C D L m (chain_uuid_eth C) d target_gas context is_static st out0 err0 =
   exit_fail st out0 err0 Fatal ExitFatal_Other"
  by (cases m)
     (auto simp add: checks_parameters_def role_defs params_ok_def switch_method_id_def
        case_defs Let_def split: option.splits)

lemma switch_no_parameter_check:
  "\<not> checks_parameters m \<Longrightarrow>
   r_state (switch_method_id C D L m u d target_gas context is_static st out0 err0) = st"
  by (cases m)
     (simp_all add: checks_parameters_def switch_method_id_def case_defs exit_returned_def
        exit_fail_def)

lemma exit_state [simp]:
  "r_state (exit_fail st out0 err0 f m) = st"
  "r_state (exit_revert b st out0 err0 c res) = st"
  "r_state (exit_returned st out0 err0 bs ls) = st"
  by (simp_all add: exit_fail_def exit_revert_def exit_returned_def)

lemma to_bytes_18: "to_bytes 18 = replicate 31 0 @ [18]"
  by code_simp

lemma result_low_byte: "(replicate 32 (0::byte))[31 := 1] = replicate 31 0 @ [1]"
  by code_simp

subsection \<open>The transfer cases once the parameters have decoded\<close>

lemma decode_address_uint:
  "decode_params D d [Address_t, Uint256_t] = Some [Address_v a, Uint256_v v] \<Longrightarrow>
   \<exists>d1 d2. abi_extract_address D d = Some (a, d1) \<and> abi_extract_u256 D d1 = Some (v, d2)"
  by (auto split: option.splits)

lemma decode_address_address_uint:
  "decode_params D d [Address_t, Address_t, Uint256_t] =
     Some [Address_v a, Address_v b, Uint256_v v] \<Longrightarrow>
   \<exists>d1 d2 d3. abi_extract_address D d = Some (a, d1) \<and>
     abi_extract_address D d1 = Some (b, d2) \<and> abi_extract_u256 D d2 = Some (v, d3)"
  by (auto split: option.splits)

lemma transfer_case:
  assumes "method_call C D input = Some (method_id_transfer, d)"
      and "decode_params D d [Address_t, Uint256_t] = Some [Address_v recipient, Uint256_v amt]"
  shows "execute C D L input target_gas context is_static st out0 err0 =
    (let tr = transfer L st (account_build_from (caller context))
                (account_build_from recipient) amt
     in if is_static then exit_revert False st out0 err0 18446 (replicate 32 0)
        else if target_gas < 18446 then exit_fail st out0 err0 Error ExitError_OutOfGas
        else if abi_size D d \<noteq> 2 then exit_fail st out0 err0 Fatal ExitFatal_Other
        else if fst tr then exit_revert False (snd tr) out0 err0 3662 (replicate 32 0)
        else exit_returned (snd tr) out0 err0 (replicate 31 0 @ [1])
          [\<lparr>log_address = address context,
            log_topics = [event_hex_string_transfer C, to_h256 (caller context),
                          to_h256 recipient],
            log_data = to_bytes amt\<rparr>])"
proof -
  obtain d1 d2 where
    "abi_extract_address D d = Some (recipient, d1)" "abi_extract_u256 D d1 = Some (amt, d2)"
    using decode_address_uint [OF assms(2)] by blast
  then show ?thesis
    by (simp add: execute_method_call [OF assms(1)] switch_method_id_def
        case_method_id_transfer_def result_low_byte Let_def split: prod.splits)
qed

lemma transfer_from_case:
  assumes "method_call C D input = Some (method_id_transfer_from, d)"
      and "decode_params D d [Address_t, Address_t, Uint256_t] =
             Some [Address_v own, Address_v recipient, Uint256_v amt]"
  shows "execute C D L input target_gas context is_static st out0 err0 =
    (let dec = update_allowance_decrease L st (account_build_from own)
                 (account_build_from (caller context)) amt;
         tr = transfer L (snd dec) (account_build_from own) (account_build_from recipient) amt
     in if is_static then exit_revert False st out0 err0 18190 (replicate 32 0)
        else if target_gas < 18190 then exit_fail st out0 err0 Error ExitError_OutOfGas
        else if abi_size D d \<noteq> 3 then exit_fail st out0 err0 Fatal ExitFatal_Other
        else if fst dec then exit_revert False (snd dec) out0 err0 4326 (replicate 32 0)
        else if fst tr then exit_revert False (snd tr) out0 err0 4326 (replicate 32 0)
        else exit_returned (snd tr) out0 err0 (replicate 31 0 @ [1])
          [\<lparr>log_address = address context,
            log_topics = [event_hex_string_transfer C, to_h256 own, to_h256 recipient],
            log_data = to_bytes amt\<rparr>])"
proof -
  obtain d1 d2 d3 where
    "abi_extract_address D d = Some (own, d1)" "abi_extract_address D d1 = Some (recipient, d2)"
    "abi_extract_u256 D d2 = Some (amt, d3)"
    using decode_address_address_uint [OF assms(2)] by blast
  then show ?thesis
    by (simp add: execute_method_call [OF assms(1)] switch_method_id_def
        case_method_id_transfer_from_def result_low_byte Let_def split: prod.splits)
qed

lemma usdt_ledger_simps [simp]:
  "tep_token_balance usdt_ledger s a = balances s a"
  "allowance usdt_ledger s a b = allowances s a b"
  "transfer usdt_ledger = ledger_transfer"
  "update_allowance_decrease usdt_ledger = ledger_update_allowance_decrease"
  by (simp_all add: usdt_ledger_def)

lemma usdt_ledger_fails_when_short:
  "transfer_fails_when_short usdt_ledger" "decrease_fails_when_short usdt_ledger"
  by (simp_all add: transfer_fails_when_short_def decrease_fails_when_short_def
      ledger_transfer_def ledger_update_allowance_decrease_def)



section \<open>The claims\<close>

text \<open>
  C5. For every mutating method (transfer, transferFrom, approve, mint, burnFrom,
  transferOwnership, setController) and every input that selects it, a call with the static
  flag set returns false with the error structure set to Revert and Reverted, its cost set
  to the fixed gas cost of the method and its output to 32 zero bytes; the output structure
  and the staged state are left as they were. This holds for every decoder, every ledger,
  every gas limit and every caller.
\<close>

theorem static_call_reverts:
  assumes "method_call C D input = Some (m, d)" and "mutating m"
  shows "execute C D L input target_gas context True st out0 err0 =
    \<lparr>ret = False, r_output = out0,
     r_err = err0\<lparr>fail_status := Revert, minor_status := ExitRevert_Reverted,
                  err_cost := method_gas_cost m, err_output := replicate 32 0\<rparr>,
     r_state = st\<rparr>"
  using assms by (simp add: execute_method_call switch_static exit_revert_def)

theorem static_call_reverts_witness:
  "method_call usdt_constants abi_decoder (transfer_input 100) =
     Some (method_id_transfer, to_bytes (ucast bob) @ to_bytes 100) \<and>
   mutating method_id_transfer \<and>
   execute usdt_constants abi_decoder usdt_ledger (transfer_input 100) 20000 alice_calls True
     sample_state fresh_output fresh_error =
    \<lparr>ret = False, r_output = fresh_output,
     r_err = fresh_error\<lparr>fail_status := Revert, minor_status := ExitRevert_Reverted,
                  err_cost := 18446, err_output := replicate 32 0\<rparr>,
     r_state = sample_state\<rparr>"
proof -
  have a: "method_call usdt_constants abi_decoder (transfer_input 100) =
     Some (method_id_transfer, to_bytes (ucast bob) @ to_bytes 100)"
    by code_simp
  have b: "mutating method_id_transfer"
    by (simp add: mutating_def)
  have c: "execute usdt_constants abi_decoder usdt_ledger (transfer_input 100) 20000
     alice_calls True sample_state fresh_output fresh_error =
    \<lparr>ret = False, r_output = fresh_output,
     r_err = fresh_error\<lparr>fail_status := Revert, minor_status := ExitRevert_Reverted,
                  err_cost := 18446, err_output := replicate 32 0\<rparr>,
     r_state = sample_state\<rparr>"
    using static_call_reverts [OF a b] by simp
  show ?thesis by (rule conjI [OF a conjI [OF b c]])
qed

text \<open>
  C9. For every call context, every ledger state and every gas limit (0 included), a call
  that selects decimals returns true with the output structure set to Returned, cost 0 and
  the 32-byte big-endian encoding of 18, which is 31 zero bytes followed by the byte 18;
  the error structure and the staged state are left as they were.
\<close>

theorem decimals_returns_18:
  assumes "method_call C D input = Some (method_id_decimals, d)"
  shows "execute C D L input target_gas context is_static st out0 err0 =
    \<lparr>ret = True,
     r_output = out0\<lparr>exit_status := Returned, cost := 0, output_bytes := to_bytes 18\<rparr>,
     r_err = err0, r_state = st\<rparr> \<and>
    to_bytes 18 = replicate 31 0 @ [18]"
  using assms
  by (simp add: execute_method_call switch_method_id_def case_method_id_decimals_def
      exit_returned_def to_bytes_18)

theorem decimals_returns_18_witness:
  "method_call usdt_constants abi_decoder decimals_input = Some (method_id_decimals, []) \<and>
   execute usdt_constants abi_decoder usdt_ledger decimals_input 0 alice_calls False
     sample_state fresh_output fresh_error =
    \<lparr>ret = True,
     r_output = fresh_output\<lparr>exit_status := Returned, cost := 0,
                              output_bytes := to_bytes 18\<rparr>,
     r_err = fresh_error, r_state = sample_state\<rparr> \<and>
   to_bytes 18 = replicate 31 0 @ [18]"
proof -
  have a: "method_call usdt_constants abi_decoder decimals_input = Some (method_id_decimals, [])"
    by code_simp
  show ?thesis by (rule conjI [OF a decimals_returns_18 [OF a]])
qed

text \<open>
  C2, as stated, does not hold: the source evaluates the authorization check of a privileged
  method before the gas check. A transferOwnership call by Alice, who is not the owner, with
  gas limit 0 fails the gas check and the authorization check; it ends Fatal and Other, the
  outcome of the authorization check, and not Error and OutOfGas.
\<close>

theorem check_order_counterexample:
  "method_call usdt_constants abi_decoder transfer_ownership_input =
     Some (method_id_transfer_ownership, to_bytes (ucast bob)) \<and>
   (0 :: u64) < method_gas_cost method_id_transfer_ownership \<and>
   unauthorized usdt_constants usdt_ledger sample_state alice_calls
     method_id_transfer_ownership \<and>
   execute usdt_constants abi_decoder usdt_ledger transfer_ownership_input 0 alice_calls False
     sample_state fresh_output fresh_error =
    \<lparr>ret = False, r_output = fresh_output,
     r_err = fresh_error\<lparr>fail_status := Fatal, minor_status := ExitFatal_Other\<rparr>,
     r_state = sample_state\<rparr>"
proof -
  have a: "method_call usdt_constants abi_decoder transfer_ownership_input =
     Some (method_id_transfer_ownership, to_bytes (ucast bob))"
    by code_simp
  have b: "(0 :: u64) < method_gas_cost method_id_transfer_ownership"
    by simp
  have c: "unauthorized usdt_constants usdt_ledger sample_state alice_calls
     method_id_transfer_ownership"
    by code_simp
  have d: "execute usdt_constants abi_decoder usdt_ledger transfer_ownership_input 0
     alice_calls False sample_state fresh_output fresh_error =
    \<lparr>ret = False, r_output = fresh_output,
     r_err = fresh_error\<lparr>fail_status := Fatal, minor_status := ExitFatal_Other\<rparr>,
     r_state = sample_state\<rparr>"
    by (simp add: execute_method_call [OF a] switch_unauthorized [OF c] exit_fail_def)
  show ?thesis by (rule conjI [OF a conjI [OF b conjI [OF c d]]])
qed

text \<open>
  C2, amended. For every method and every input that selects it, the checks are evaluated in
  the order (1) static-context eligibility, (2) authorization for the privileged methods,
  (3) gas sufficiency, (4) parameter count and decoding for the methods that inspect their
  parameters: the outcome is that of the first check that fails, and the staged state changes
  only if all of them pass.
\<close>

theorem check_order:
  assumes "method_call C D input = Some (m, d)"
  shows "let r = execute C D L input target_gas context is_static st out0 err0;
             static_fails = (mutating m \<and> is_static);
             auth_fails = unauthorized C L st context m;
             gas_fails = (target_gas < method_gas_cost m);
             decode_fails = (checks_parameters m \<and> \<not> params_ok D d m)
         in (static_fails \<longrightarrow>
               r = exit_revert False st out0 err0 (method_gas_cost m) (replicate 32 0)) \<and>
            (\<not> static_fails \<and> auth_fails \<longrightarrow>
               r = exit_fail st out0 err0 Fatal ExitFatal_Other) \<and>
            (\<not> static_fails \<and> \<not> auth_fails \<and> gas_fails \<longrightarrow>
               r = exit_fail st out0 err0 Error ExitError_OutOfGas) \<and>
            (\<not> static_fails \<and> \<not> auth_fails \<and> \<not> gas_fails \<and> decode_fails \<longrightarrow>
               r = exit_fail st out0 err0 Fatal ExitFatal_Other) \<and>
            (r_state r \<noteq> st \<longrightarrow>
               \<not> static_fails \<and> \<not> auth_fails \<and> \<not> gas_fails \<and> \<not> decode_fails)"
proof -
  let ?r = "execute C D L input target_gas context is_static st out0 err0"
  have sw: "?r = switch_method_id C D L m (chain_uuid_eth C) d target_gas context is_static
              st out0 err0"
    using assms by (rule execute_method_call)
  have s1: "mutating m \<and> is_static \<Longrightarrow>
      ?r = exit_revert False st out0 err0 (method_gas_cost m) (replicate 32 0)"
    using sw switch_static [of m C D L "chain_uuid_eth C" d target_gas "context" st out0 err0]
    by simp
  have s2: "\<not> (mutating m \<and> is_static) \<Longrightarrow> unauthorized C L st context m \<Longrightarrow>
      ?r = exit_fail st out0 err0 Fatal ExitFatal_Other"
    using sw switch_unauthorized [of C L st "context" m D d target_gas out0 err0]
      unauthorized_mutating [of C L st "context" m]
    by auto
  have s3: "\<not> (mutating m \<and> is_static) \<Longrightarrow> \<not> unauthorized C L st context m \<Longrightarrow>
      target_gas < method_gas_cost m \<Longrightarrow> ?r = exit_fail st out0 err0 Error ExitError_OutOfGas"
    using sw switch_out_of_gas by metis
  have s4: "\<not> (mutating m \<and> is_static) \<Longrightarrow> \<not> unauthorized C L st context m \<Longrightarrow>
      \<not> target_gas < method_gas_cost m \<Longrightarrow> checks_parameters m \<Longrightarrow> \<not> params_ok D d m \<Longrightarrow>
      ?r = exit_fail st out0 err0 Fatal ExitFatal_Other"
    using sw switch_bad_params by metis
  have s5: "r_state ?r \<noteq> st \<Longrightarrow>
      \<not> (mutating m \<and> is_static) \<and> \<not> unauthorized C L st context m \<and>
      \<not> target_gas < method_gas_cost m \<and> \<not> (checks_parameters m \<and> \<not> params_ok D d m)"
    using s1 s2 s3 s4 by (metis exit_state(1) exit_state(2))
  show ?thesis
    unfolding Let_def using s1 s2 s3 s4 s5 by blast
qed

theorem check_order_witness:
  "method_call usdt_constants abi_decoder transfer_ownership_input =
     Some (method_id_transfer_ownership, to_bytes (ucast bob)) \<and>
   unauthorized usdt_constants usdt_ledger sample_state alice_calls
     method_id_transfer_ownership \<and>
   execute usdt_constants abi_decoder usdt_ledger transfer_ownership_input 0 alice_calls False
     sample_state fresh_output fresh_error =
     exit_fail sample_state fresh_output fresh_error Fatal ExitFatal_Other"
proof -
  have a: "method_call usdt_constants abi_decoder transfer_ownership_input =
     Some (method_id_transfer_ownership, to_bytes (ucast bob))"
    by code_simp
  have b: "unauthorized usdt_constants usdt_ledger sample_state alice_calls
     method_id_transfer_ownership"
    by code_simp
  have c: "execute usdt_constants abi_decoder usdt_ledger transfer_ownership_input 0
     alice_calls False sample_state fresh_output fresh_error =
     exit_fail sample_state fresh_output fresh_error Fatal ExitFatal_Other"
    using check_order [OF a, of usdt_ledger 0 alice_calls False sample_state
        fresh_output fresh_error] b
    by (simp add: Let_def)
  show ?thesis by (rule conjI [OF a conjI [OF b c]])
qed

text \<open>
  C3, as stated, does not hold for static calls: the static check comes first. A static mint
  call by Alice, who is not the controller, ends Revert and Reverted with cost 3155, not
  Fatal and Other.
\<close>

theorem unauthorized_caller_counterexample:
  "method_call usdt_constants abi_decoder mint_input =
     Some (method_id_mint, to_bytes (ucast bob) @ to_bytes 100) \<and>
   account_build_from (caller alice_calls) \<noteq>
     tep_token_controller usdt_ledger sample_state (chain_uuid_eth usdt_constants) \<and>
   execute usdt_constants abi_decoder usdt_ledger mint_input 20000 alice_calls True
     sample_state fresh_output fresh_error =
    \<lparr>ret = False, r_output = fresh_output,
     r_err = fresh_error\<lparr>fail_status := Revert, minor_status := ExitRevert_Reverted,
                          err_cost := 3155, err_output := replicate 32 0\<rparr>,
     r_state = sample_state\<rparr>"
proof -
  have a: "method_call usdt_constants abi_decoder mint_input =
     Some (method_id_mint, to_bytes (ucast bob) @ to_bytes 100)"
    by code_simp
  have b: "account_build_from (caller alice_calls) \<noteq>
     tep_token_controller usdt_ledger sample_state (chain_uuid_eth usdt_constants)"
    by code_simp
  have c: "execute usdt_constants abi_decoder usdt_ledger mint_input 20000 alice_calls True
     sample_state fresh_output fresh_error =
    \<lparr>ret = False, r_output = fresh_output,
     r_err = fresh_error\<lparr>fail_status := Revert, minor_status := ExitRevert_Reverted,
                          err_cost := 3155, err_output := replicate 32 0\<rparr>,
     r_state = sample_state\<rparr>"
    by (simp add: execute_method_call [OF a] switch_static mutating_def exit_revert_def)
  show ?thesis by (rule conjI [OF a conjI [OF b c]])
qed

text \<open>
  C3, amended. For every non-static call to mint or burnFrom whose caller is not the stored
  controller, and every non-static call to transferOwnership or setController whose caller
  is not the stored owner, the call returns false with the error structure set to Fatal and
  Other, and the output structure and the staged state are left as they were, for every gas
  limit and all parameter bytes.
\<close>

theorem unauthorized_caller_is_fatal:
  assumes "method_call C D input = Some (m, d)"
      and "unauthorized C L st context m"
  shows "execute C D L input target_gas context False st out0 err0 =
    \<lparr>ret = False, r_output = out0,
     r_err = err0\<lparr>fail_status := Fatal, minor_status := ExitFatal_Other\<rparr>,
     r_state = st\<rparr>"
  using assms by (simp add: execute_method_call switch_unauthorized exit_fail_def)

theorem unauthorized_caller_is_fatal_witness:
  "method_call usdt_constants abi_decoder mint_input =
     Some (method_id_mint, to_bytes (ucast bob) @ to_bytes 100) \<and>
   unauthorized usdt_constants usdt_ledger sample_state alice_calls method_id_mint \<and>
   execute usdt_constants abi_decoder usdt_ledger mint_input 0 alice_calls False
     sample_state fresh_output fresh_error =
    \<lparr>ret = False, r_output = fresh_output,
     r_err = fresh_error\<lparr>fail_status := Fatal, minor_status := ExitFatal_Other\<rparr>,
     r_state = sample_state\<rparr>"
proof -
  have a: "method_call usdt_constants abi_decoder mint_input =
     Some (method_id_mint, to_bytes (ucast bob) @ to_bytes 100)"
    by code_simp
  have b: "unauthorized usdt_constants usdt_ledger sample_state alice_calls method_id_mint"
    by code_simp
  show ?thesis by (rule conjI [OF a conjI [OF b unauthorized_caller_is_fatal [OF a b]]])
qed

text \<open>
  C4, as stated, does not hold regardless of the caller: a non-static mint call with gas
  limit 0 by Alice, who is not the controller, ends Fatal and Other, because the
  authorization check precedes the gas check.
\<close>

theorem out_of_gas_counterexample:
  "method_call usdt_constants abi_decoder mint_input =
     Some (method_id_mint, to_bytes (ucast bob) @ to_bytes 100) \<and>
   (0 :: u64) < method_gas_cost method_id_mint \<and>
   execute usdt_constants abi_decoder usdt_ledger mint_input 0 alice_calls False
     sample_state fresh_output fresh_error =
    \<lparr>ret = False, r_output = fresh_output,
     r_err = fresh_error\<lparr>fail_status := Fatal, minor_status := ExitFatal_Other\<rparr>,
     r_state = sample_state\<rparr>"
proof -
  have a: "method_call usdt_constants abi_decoder mint_input =
     Some (method_id_mint, to_bytes (ucast bob) @ to_bytes 100)"
    by code_simp
  have b: "(0 :: u64) < method_gas_cost method_id_mint"
    by simp
  have c: "unauthorized usdt_constants usdt_ledger sample_state alice_calls method_id_mint"
    by code_simp
  have d: "execute usdt_constants abi_decoder usdt_ledger mint_input 0 alice_calls False
     sample_state fresh_output fresh_error =
    \<lparr>ret = False, r_output = fresh_output,
     r_err = fresh_error\<lparr>fail_status := Fatal, minor_status := ExitFatal_Other\<rparr>,
     r_state = sample_state\<rparr>"
    by (simp add: execute_method_call [OF a] switch_unauthorized [OF c] exit_fail_def)
  show ?thesis by (rule conjI [OF a conjI [OF b d]])
qed

text \<open>
  C4, amended. For every method and every input that selects it, if the call is not a static
  call of a mutating method and, for a privileged method, the caller holds the role, then a
  gas limit below the fixed gas cost of the method makes the call return false with the
  error structure set to Error and OutOfGas; the output structure (so the logs) and the
  staged state are left as they were, whatever the parameters are.
\<close>

theorem out_of_gas:
  assumes "method_call C D input = Some (m, d)"
      and "\<not> (mutating m \<and> is_static)"
      and "\<not> unauthorized C L st context m"
      and "target_gas < method_gas_cost m"
  shows "execute C D L input target_gas context is_static st out0 err0 =
    \<lparr>ret = False, r_output = out0,
     r_err = err0\<lparr>fail_status := Error, minor_status := ExitError_OutOfGas\<rparr>,
     r_state = st\<rparr>"
  using assms by (simp add: execute_method_call switch_out_of_gas exit_fail_def)

theorem out_of_gas_witness:
  "method_call usdt_constants abi_decoder transfer_input_one_parameter =
     Some (method_id_transfer, to_bytes (ucast bob)) \<and>
   \<not> (mutating method_id_transfer \<and> False) \<and>
   \<not> unauthorized usdt_constants usdt_ledger sample_state alice_calls method_id_transfer \<and>
   (18445 :: u64) < method_gas_cost method_id_transfer \<and>
   execute usdt_constants abi_decoder usdt_ledger transfer_input_one_parameter 18445
     alice_calls False sample_state fresh_output fresh_error =
    \<lparr>ret = False, r_output = fresh_output,
     r_err = fresh_error\<lparr>fail_status := Error, minor_status := ExitError_OutOfGas\<rparr>,
     r_state = sample_state\<rparr>"
proof -
  have a: "method_call usdt_constants abi_decoder transfer_input_one_parameter =
     Some (method_id_transfer, to_bytes (ucast bob))"
    by code_simp
  have b: "\<not> (mutating method_id_transfer \<and> False)"
    by simp
  have c: "\<not> unauthorized usdt_constants usdt_ledger sample_state alice_calls
     method_id_transfer"
    by (simp add: role_defs)
  have d: "(18445 :: u64) < method_gas_cost method_id_transfer"
    by simp
  show ?thesis
    by (rule conjI [OF a conjI [OF b conjI [OF c conjI [OF d out_of_gas [OF a b c d]]]]])
qed

text \<open>
  C6, as stated, does not hold for the zero-parameter method decimals: the decimals case
  never looks at the decoder. A decimals call that carries one 32-byte parameter returns
  true with the encoding of 18.
\<close>

theorem parameter_mismatch_counterexample:
  "method_call usdt_constants abi_decoder decimals_input_with_parameter =
     Some (method_id_decimals, to_bytes 7) \<and>
   abi_size abi_decoder (to_bytes 7) = 1 \<and>
   length (declared_params method_id_decimals) = 0 \<and>
   execute usdt_constants abi_decoder usdt_ledger decimals_input_with_parameter 20000
     alice_calls False sample_state fresh_output fresh_error =
    \<lparr>ret = True,
     r_output = fresh_output\<lparr>exit_status := Returned, cost := 0,
                              output_bytes := replicate 31 0 @ [18]\<rparr>,
     r_err = fresh_error, r_state = sample_state\<rparr>"
proof -
  have a: "method_call usdt_constants abi_decoder decimals_input_with_parameter =
     Some (method_id_decimals, to_bytes 7)"
    by code_simp
  have b: "abi_size abi_decoder (to_bytes 7) = 1"
    by code_simp
  have c: "length (declared_params method_id_decimals) = 0"
    by simp
  have d: "execute usdt_constants abi_decoder usdt_ledger decimals_input_with_parameter 20000
     alice_calls False sample_state fresh_output fresh_error =
    \<lparr>ret = True,
     r_output = fresh_output\<lparr>exit_status := Returned, cost := 0,
                              output_bytes := replicate 31 0 @ [18]\<rparr>,
     r_err = fresh_error, r_state = sample_state\<rparr>"
    by (simp add: execute_method_call [OF a] switch_method_id_def case_method_id_decimals_def
        exit_returned_def to_bytes_18)
  show ?thesis by (rule conjI [OF a conjI [OF b conjI [OF c d]]])
qed

text \<open>
  C6, amended. For every method other than decimals, owner and controller, a call that
  passes the static check, the authorization check and the gas check, and whose parameter
  count is not the declared arity or whose parameters fail to decode, returns false with the
  error structure set to Fatal and Other; the output structure and the staged state are left
  as they were. This covers the zero-parameter method totalSupply.
\<close>

theorem parameter_mismatch_is_fatal:
  assumes "method_call C D input = Some (m, d)"
      and "checks_parameters m"
      and "\<not> (mutating m \<and> is_static)"
      and "\<not> unauthorized C L st context m"
      and "\<not> target_gas < method_gas_cost m"
      and "\<not> params_ok D d m"
  shows "execute C D L input target_gas context is_static st out0 err0 =
    \<lparr>ret = False, r_output = out0,
     r_err = err0\<lparr>fail_status := Fatal, minor_status := ExitFatal_Other\<rparr>,
     r_state = st\<rparr>"
  using assms by (simp add: execute_method_call switch_bad_params exit_fail_def)

theorem parameter_mismatch_is_fatal_witness:
  "method_call usdt_constants abi_decoder transfer_input_one_parameter =
     Some (method_id_transfer, to_bytes (ucast bob)) \<and>
   checks_parameters method_id_transfer \<and>
   \<not> (mutating method_id_transfer \<and> False) \<and>
   \<not> unauthorized usdt_constants usdt_ledger sample_state alice_calls method_id_transfer \<and>
   \<not> (20000 :: u64) < method_gas_cost method_id_transfer \<and>
   \<not> params_ok abi_decoder (to_bytes (ucast bob)) method_id_transfer \<and>
   execute usdt_constants abi_decoder usdt_ledger transfer_input_one_parameter 20000
     alice_calls False sample_state fresh_output fresh_error =
    \<lparr>ret = False, r_output = fresh_output,
     r_err = fresh_error\<lparr>fail_status := Fatal, minor_status := ExitFatal_Other\<rparr>,
     r_state = sample_state\<rparr>"
proof -
  have a: "method_call usdt_constants abi_decoder transfer_input_one_parameter =
     Some (method_id_transfer, to_bytes (ucast bob))"
    by code_simp
  have b: "checks_parameters method_id_transfer"
    by (simp add: checks_parameters_def)
  have c: "\<not> (mutating method_id_transfer \<and> False)"
    by simp
  have d: "\<not> unauthorized usdt_constants usdt_ledger sample_state alice_calls
     method_id_transfer"
    by (simp add: role_defs)
  have e: "\<not> (20000 :: u64) < method_gas_cost method_id_transfer"
    by simp
  have f: "\<not> params_ok abi_decoder (to_bytes (ucast bob)) method_id_transfer"
    by code_simp
  show ?thesis
    by (rule conjI [OF a conjI [OF b conjI [OF c conjI [OF d conjI [OF e conjI [OF f
          parameter_mismatch_is_fatal [OF a b c d e f]]]]]]])
qed

text \<open>
  C10. Let the output structure passed in not yet be marked Returned. For every call other
  than a failed approve, execute returns true exactly when it marks the output structure
  Returned; when it returns true it leaves the error structure as it was, and when it
  returns false it leaves the output structure as it was. For an approve call that passes
  the static, gas and parameter checks and whose ledger operation sets the error code,
  execute returns true although it leaves the output structure as it was (not marked
  Returned) and sets the error structure to Revert and Reverted with cost 9299, half of the
  approve gas cost 18599, and 32 zero bytes: the returned flag and the populated structure
  disagree.
\<close>

theorem return_value_and_outcome:
  assumes "exit_status out0 \<noteq> Returned"
  shows "let r = execute C D L input target_gas context is_static st out0 err0 in
     if approve_fails C D L input target_gas context is_static st
     then ret r \<and> exit_status (r_output r) \<noteq> Returned \<and> r_output r = out0 \<and>
          r_err r = err0\<lparr>fail_status := Revert, minor_status := ExitRevert_Reverted,
                         err_cost := 9299, err_output := replicate 32 0\<rparr>
     else (ret r \<longleftrightarrow> exit_status (r_output r) = Returned) \<and>
          (ret r \<longrightarrow> r_err r = err0) \<and>
          (\<not> ret r \<longrightarrow> r_output r = out0)"
proof (cases "method_call C D input")
  case None
  then show ?thesis
    using assms execute_no_method_call [OF None, of L target_gas "context" is_static st out0 err0]
    by (auto simp add: approve_fails_def exit_fail_def Let_def)
next
  case (Some md)
  obtain m d where md: "md = (m, d)" by (cases md)
  have mc: "method_call C D input = Some (m, d)" using Some md by simp
  show ?thesis
    using assms
    by (cases m)
       (auto simp add: execute_method_call [OF mc] approve_fails_def mc switch_method_id_def
          case_defs exit_fail_def exit_revert_def exit_returned_def Let_def
          split: option.splits prod.splits)
qed

theorem return_value_and_outcome_witness:
  "exit_status fresh_output \<noteq> Returned \<and>
   approve_fails usdt_constants abi_decoder refusing_ledger approve_input 20000 alice_calls
     False sample_state \<and>
   ret (execute usdt_constants abi_decoder refusing_ledger approve_input 20000 alice_calls
     False sample_state fresh_output fresh_error) \<and>
   r_output (execute usdt_constants abi_decoder refusing_ledger approve_input 20000 alice_calls
     False sample_state fresh_output fresh_error) = fresh_output \<and>
   r_err (execute usdt_constants abi_decoder refusing_ledger approve_input 20000 alice_calls
     False sample_state fresh_output fresh_error) =
     fresh_error\<lparr>fail_status := Revert, minor_status := ExitRevert_Reverted,
                  err_cost := 9299, err_output := replicate 32 0\<rparr>"
proof -
  have a: "exit_status fresh_output \<noteq> Returned"
    by (simp add: fresh_output_def)
  have b: "approve_fails usdt_constants abi_decoder refusing_ledger approve_input 20000
     alice_calls False sample_state"
    by code_simp
  show ?thesis
    using return_value_and_outcome [OF a, of usdt_constants abi_decoder refusing_ledger
        approve_input 20000 alice_calls False sample_state fresh_error] a b
    by (simp add: Let_def)
qed




text \<open>
  C8, as stated, does not hold for every transfer call with an insufficient balance: the
  static and the gas check come before the ledger is consulted. Alice holds 50; her static
  call of transfer(Bob, 100) ends Revert and Reverted with the cost 18446, not 3662.
\<close>

theorem transfer_insufficient_counterexample:
  "method_call usdt_constants abi_decoder (transfer_input 100) =
     Some (method_id_transfer, to_bytes (ucast bob) @ to_bytes 100) \<and>
   decode_params abi_decoder (to_bytes (ucast bob) @ to_bytes 100) [Address_t, Uint256_t] =
     Some [Address_v bob, Uint256_v 100] \<and>
   balances sample_state (account_build_from (caller alice_calls)) < 100 \<and>
   execute usdt_constants abi_decoder usdt_ledger (transfer_input 100) 20000 alice_calls True
     sample_state fresh_output fresh_error =
    \<lparr>ret = False, r_output = fresh_output,
     r_err = fresh_error\<lparr>fail_status := Revert, minor_status := ExitRevert_Reverted,
                          err_cost := 18446, err_output := replicate 32 0\<rparr>,
     r_state = sample_state\<rparr>"
proof -
  have a: "method_call usdt_constants abi_decoder (transfer_input 100) =
     Some (method_id_transfer, to_bytes (ucast bob) @ to_bytes 100)"
    by code_simp
  have b: "decode_params abi_decoder (to_bytes (ucast bob) @ to_bytes 100)
     [Address_t, Uint256_t] = Some [Address_v bob, Uint256_v 100]"
    by code_simp
  have c: "balances sample_state (account_build_from (caller alice_calls)) < 100"
    by code_simp
  have d: "execute usdt_constants abi_decoder usdt_ledger (transfer_input 100) 20000
     alice_calls True sample_state fresh_output fresh_error =
    \<lparr>ret = False, r_output = fresh_output,
     r_err = fresh_error\<lparr>fail_status := Revert, minor_status := ExitRevert_Reverted,
                          err_cost := 18446, err_output := replicate 32 0\<rparr>,
     r_state = sample_state\<rparr>"
    by (simp add: transfer_case [OF a b] exit_revert_def Let_def)
  show ?thesis by (rule conjI [OF a conjI [OF b conjI [OF c d]]])
qed

text \<open>
  C8, amended. For every ledger whose transfer sets the error code and changes nothing when
  the sender's balance is short, and every non-static transfer call with a gas limit of at
  least 18446 and two parameters that decode to a recipient and an amount, where the
  caller's balance is less than the amount: the call returns false with the error structure
  set to Revert and Reverted, cost 3662 and 32 zero bytes; the output structure (so the
  logs) and the staged state are left as they were.
\<close>

theorem transfer_insufficient_balance:
  assumes "method_call C D input = Some (method_id_transfer, d)"
      and "decode_params D d [Address_t, Uint256_t] = Some [Address_v recipient, Uint256_v amt]"
      and "abi_size D d = 2"
      and "\<not> target_gas < 18446"
      and "transfer_fails_when_short L"
      and "tep_token_balance L st (account_build_from (caller context)) < amt"
  shows "execute C D L input target_gas context False st out0 err0 =
    \<lparr>ret = False, r_output = out0,
     r_err = err0\<lparr>fail_status := Revert, minor_status := ExitRevert_Reverted,
                  err_cost := 3662, err_output := replicate 32 0\<rparr>,
     r_state = st\<rparr>"
proof -
  have "transfer L st (account_build_from (caller context)) (account_build_from recipient) amt =
    (True, st)"
    using assms(5,6) by (simp add: transfer_fails_when_short_def)
  then show ?thesis
    using assms(3,4)
    by (simp add: transfer_case [OF assms(1) assms(2)] exit_revert_def)
qed

theorem transfer_insufficient_balance_witness:
  "method_call usdt_constants abi_decoder (transfer_input 100) =
     Some (method_id_transfer, to_bytes (ucast bob) @ to_bytes 100) \<and>
   decode_params abi_decoder (to_bytes (ucast bob) @ to_bytes 100) [Address_t, Uint256_t] =
     Some [Address_v bob, Uint256_v 100] \<and>
   abi_size abi_decoder (to_bytes (ucast bob) @ to_bytes 100) = 2 \<and>
   \<not> (20000 :: u64) < 18446 \<and>
   transfer_fails_when_short usdt_ledger \<and>
   tep_token_balance usdt_ledger sample_state (account_build_from (caller alice_calls)) < 100 \<and>
   execute usdt_constants abi_decoder usdt_ledger (transfer_input 100) 20000 alice_calls False
     sample_state fresh_output fresh_error =
    \<lparr>ret = False, r_output = fresh_output,
     r_err = fresh_error\<lparr>fail_status := Revert, minor_status := ExitRevert_Reverted,
                          err_cost := 3662, err_output := replicate 32 0\<rparr>,
     r_state = sample_state\<rparr>"
proof -
  have a: "method_call usdt_constants abi_decoder (transfer_input 100) =
     Some (method_id_transfer, to_bytes (ucast bob) @ to_bytes 100)"
    by code_simp
  have b: "decode_params abi_decoder (to_bytes (ucast bob) @ to_bytes 100)
     [Address_t, Uint256_t] = Some [Address_v bob, Uint256_v 100]"
    by code_simp
  have c: "abi_size abi_decoder (to_bytes (ucast bob) @ to_bytes 100) = 2"
    by code_simp
  have d: "\<not> (20000 :: u64) < 18446"
    by simp
  note e = usdt_ledger_fails_when_short(1)
  have f: "tep_token_balance usdt_ledger sample_state
     (account_build_from (caller alice_calls)) < 100"
    by code_simp
  show ?thesis
    by (rule conjI [OF a conjI [OF b conjI [OF c conjI [OF d conjI [OF e conjI [OF f
          transfer_insufficient_balance [OF a b c d e f]]]]]]])
qed

text \<open>
  C1, as stated, does not hold: the source decrements the allowance and transfers in two
  separate ledger calls and does not undo the first when the second fails. Alice holds 50
  and has approved Carol for 100. Carol's call transferFrom(Alice, Bob, 100) passes the
  static, gas and decode checks and the allowance check; the transfer fails for lack of
  balance. The call ends Revert and Reverted with cost 4326 and no log, the balances are as
  before, and the staged state holds Alice's allowance for Carol debited from 100 to 0.
\<close>

theorem transfer_from_atomicity_counterexample:
  "method_call usdt_constants abi_decoder (transfer_from_input 100) =
     Some (method_id_transfer_from,
           to_bytes (ucast alice) @ to_bytes (ucast bob) @ to_bytes 100) \<and>
   allowances sample_state (account_build_from alice) (account_build_from carol) = 100 \<and>
   balances sample_state (account_build_from alice) = 50 \<and>
   execute usdt_constants abi_decoder usdt_ledger (transfer_from_input 100) 20000 carol_calls
     False sample_state fresh_output fresh_error =
    \<lparr>ret = False, r_output = fresh_output,
     r_err = fresh_error\<lparr>fail_status := Revert, minor_status := ExitRevert_Reverted,
                          err_cost := 4326, err_output := replicate 32 0\<rparr>,
     r_state = sample_state\<lparr>allowances :=
       (allowances sample_state)(account_build_from alice :=
          (allowances sample_state (account_build_from alice))
            (account_build_from carol := 0))\<rparr>\<rparr>"
proof -
  have a: "method_call usdt_constants abi_decoder (transfer_from_input 100) =
     Some (method_id_transfer_from,
           to_bytes (ucast alice) @ to_bytes (ucast bob) @ to_bytes 100)"
    by code_simp
  have b: "decode_params abi_decoder
     (to_bytes (ucast alice) @ to_bytes (ucast bob) @ to_bytes 100)
     [Address_t, Address_t, Uint256_t] = Some [Address_v alice, Address_v bob, Uint256_v 100]"
    by code_simp
  have c: "abi_size abi_decoder
     (to_bytes (ucast alice) @ to_bytes (ucast bob) @ to_bytes 100) = 3"
    by code_simp
  have d: "allowances sample_state (account_build_from alice) (account_build_from carol) = 100"
    by (simp add: sample_state_def)
  have e: "balances sample_state (account_build_from alice) = 50"
    by (simp add: sample_state_def)
  have f: "execute usdt_constants abi_decoder usdt_ledger (transfer_from_input 100) 20000
     carol_calls False sample_state fresh_output fresh_error =
    \<lparr>ret = False, r_output = fresh_output,
     r_err = fresh_error\<lparr>fail_status := Revert, minor_status := ExitRevert_Reverted,
                          err_cost := 4326, err_output := replicate 32 0\<rparr>,
     r_state = sample_state\<lparr>allowances :=
       (allowances sample_state)(account_build_from alice :=
          (allowances sample_state (account_build_from alice))
            (account_build_from carol := 0))\<rparr>\<rparr>"
    using c d e
    by (simp add: transfer_from_case [OF a b] exit_revert_def carol_calls_def Let_def
        ledger_transfer_def ledger_update_allowance_decrease_def)
  show ?thesis by (rule conjI [OF a conjI [OF d conjI [OF e f]]])
qed

text \<open>
  C1, amended. For every ledger and every transferFrom call that passes the static, gas and
  decode checks, with owner \<open>own\<close>, recipient \<open>recipient\<close> and amount \<open>amt\<close>,
  the source asks the ledger to decrease the caller's allowance on the owner and, only if
  that succeeded, to transfer from the owner to the recipient in the state the decrease
  left. If the ledger refuses a decrease beyond the allowance without changing anything and
  the caller's allowance on the owner is less than the amount, the call ends Revert and
  Reverted with cost 4326, no log and no change of the staged state. If both ledger calls
  succeed, the call returns true with one Transfer log, and the staged state is the one
  after both. If the decrease succeeds and the transfer fails, the call ends Revert and
  Reverted with cost 4326 and no log, and the staged state is the one the failed transfer
  leaves of the state after the decrease: the source has no step that restores the
  allowance (undoing it is left to the host that receives the revert).
\<close>

theorem transfer_from_outcomes:
  assumes "method_call C D input = Some (method_id_transfer_from, d)"
      and "decode_params D d [Address_t, Address_t, Uint256_t] =
             Some [Address_v own, Address_v recipient, Uint256_v amt]"
      and "abi_size D d = 3"
      and "\<not> target_gas < 18190"
  shows "let r = execute C D L input target_gas context False st out0 err0;
             owner_account = account_build_from own;
             spender = account_build_from (caller context);
             dec = update_allowance_decrease L st owner_account spender amt;
             tr = transfer L (snd dec) owner_account (account_build_from recipient) amt;
             reverted = err0\<lparr>fail_status := Revert, minor_status := ExitRevert_Reverted,
                             err_cost := 4326, err_output := replicate 32 0\<rparr>
         in (decrease_fails_when_short L \<and> allowance L st owner_account spender < amt \<longrightarrow>
               r = \<lparr>ret = False, r_output = out0, r_err = reverted, r_state = st\<rparr>) \<and>
            (\<not> fst dec \<and> \<not> fst tr \<longrightarrow>
               r = \<lparr>ret = True,
                    r_output = out0\<lparr>exit_status := Returned, cost := 0,
                      output_bytes := replicate 31 0 @ [1],
                      logs := logs out0 @
                        [\<lparr>log_address = address context,
                          log_topics = [event_hex_string_transfer C, to_h256 own,
                                        to_h256 recipient],
                          log_data = to_bytes amt\<rparr>]\<rparr>,
                    r_err = err0, r_state = snd tr\<rparr>) \<and>
            (\<not> fst dec \<and> fst tr \<longrightarrow>
               r = \<lparr>ret = False, r_output = out0, r_err = reverted, r_state = snd tr\<rparr>)"
proof -
  have "decrease_fails_when_short L \<Longrightarrow>
      allowance L st (account_build_from own) (account_build_from (caller context)) < amt \<Longrightarrow>
      update_allowance_decrease L st (account_build_from own)
        (account_build_from (caller context)) amt = (True, st)"
    by (simp add: decrease_fails_when_short_def)
  then show ?thesis
    using assms(3,4)
    by (auto simp add: transfer_from_case [OF assms(1) assms(2)] Let_def exit_revert_def
        exit_returned_def)
qed

theorem transfer_from_outcomes_witness:
  "method_call usdt_constants abi_decoder (transfer_from_input 30) =
     Some (method_id_transfer_from,
           to_bytes (ucast alice) @ to_bytes (ucast bob) @ to_bytes 30) \<and>
   decode_params abi_decoder (to_bytes (ucast alice) @ to_bytes (ucast bob) @ to_bytes 30)
     [Address_t, Address_t, Uint256_t] = Some [Address_v alice, Address_v bob, Uint256_v 30] \<and>
   abi_size abi_decoder (to_bytes (ucast alice) @ to_bytes (ucast bob) @ to_bytes 30) = 3 \<and>
   \<not> (20000 :: u64) < 18190 \<and>
   ret (execute usdt_constants abi_decoder usdt_ledger (transfer_from_input 30) 20000
     carol_calls False sample_state fresh_output fresh_error) \<and>
   allowances (r_state (execute usdt_constants abi_decoder usdt_ledger (transfer_from_input 30)
     20000 carol_calls False sample_state fresh_output fresh_error))
     (account_build_from alice) (account_build_from carol) = 70 \<and>
   balances (r_state (execute usdt_constants abi_decoder usdt_ledger (transfer_from_input 30)
     20000 carol_calls False sample_state fresh_output fresh_error))
     (account_build_from alice) = 20 \<and>
   balances (r_state (execute usdt_constants abi_decoder usdt_ledger (transfer_from_input 30)
     20000 carol_calls False sample_state fresh_output fresh_error))
     (account_build_from bob) = 30"
proof -
  have a: "method_call usdt_constants abi_decoder (transfer_from_input 30) =
     Some (method_id_transfer_from,
           to_bytes (ucast alice) @ to_bytes (ucast bob) @ to_bytes 30)"
    by code_simp
  have b: "decode_params abi_decoder
     (to_bytes (ucast alice) @ to_bytes (ucast bob) @ to_bytes 30)
     [Address_t, Address_t, Uint256_t] = Some [Address_v alice, Address_v bob, Uint256_v 30]"
    by code_simp
  have c: "abi_size abi_decoder
     (to_bytes (ucast alice) @ to_bytes (ucast bob) @ to_bytes 30) = 3"
    by code_simp
  have d: "\<not> (20000 :: u64) < 18190"
    by simp
  have ne: "account_build_from alice \<noteq> account_build_from bob"
    by (simp add: alice_def bob_def)
  define dec where "dec = update_allowance_decrease usdt_ledger sample_state
     (account_build_from alice) (account_build_from (caller carol_calls)) 30"
  define tr where "tr = transfer usdt_ledger (snd dec) (account_build_from alice)
     (account_build_from bob) 30"
  have dec: "dec = (False, sample_state\<lparr>allowances :=
       (allowances sample_state)(account_build_from alice :=
          (allowances sample_state (account_build_from alice))
            (account_build_from carol := 70))\<rparr>)"
    by (simp add: dec_def ledger_update_allowance_decrease_def sample_state_def carol_calls_def)
  have tr: "\<not> fst tr"
    "allowances (snd tr) (account_build_from alice) (account_build_from carol) = 70"
    "balances (snd tr) (account_build_from alice) = 20"
    "balances (snd tr) (account_build_from bob) = 30"
    using ne
    by (simp_all add: tr_def dec ledger_transfer_def ledger_deposit_def ledger_withdraw_def
        sample_state_def)
  have p: "\<not> fst dec \<and> \<not> fst tr"
    using dec tr(1) by simp
  note t = transfer_from_outcomes [OF a b c d, of usdt_ledger carol_calls sample_state
      fresh_output fresh_error, unfolded Let_def, folded dec_def, folded tr_def,
      THEN conjunct2, THEN conjunct1, rule_format, OF p]
  have e: "ret (execute usdt_constants abi_decoder usdt_ledger (transfer_from_input 30) 20000
     carol_calls False sample_state fresh_output fresh_error)"
    by (simp add: t)
  have f: "allowances (r_state (execute usdt_constants abi_decoder usdt_ledger
     (transfer_from_input 30) 20000 carol_calls False sample_state fresh_output fresh_error))
     (account_build_from alice) (account_build_from carol) = 70"
    by (simp add: t tr(2))
  have g: "balances (r_state (execute usdt_constants abi_decoder usdt_ledger
     (transfer_from_input 30) 20000 carol_calls False sample_state fresh_output fresh_error))
     (account_build_from alice) = 20"
    by (simp add: t tr(3))
  have h: "balances (r_state (execute usdt_constants abi_decoder usdt_ledger
     (transfer_from_input 30) 20000 carol_calls False sample_state fresh_output fresh_error))
     (account_build_from bob) = 30"
    by (simp add: t tr(4))
  show ?thesis
    by (rule conjI [OF a conjI [OF b conjI [OF c conjI [OF d conjI [OF e conjI [OF f
          conjI [OF g h]]]]]]])
qed

end
